theory Spec2Isabelle
  imports Complex_Main "HOL-Library.Word" "HOL-Library.Code_Target_Numeral"
begin

section \<open>JavaScript values\<close>

text \<open>
  The server is one JavaScript module (\<^verbatim>\<open>src/server.js\<close>). Its handlers receive values
  that Express parsed from JSON bodies and query strings, so the model works on dynamically
  typed values. A string is a list of UTF-16 code units, which is what the regular
  expressions of the source (written without the \<^verbatim>\<open>u\<close> flag) inspect. A finite number is
  the rational it denotes: every double is a rational, the program only compares numbers
  and never computes with them, and comparison is exact on rationals. A number that the
  program reads from a string is rounded to a double first (\<open>RoundToDouble\<close> below).
  Positive and negative zero are both \<open>Fin 0\<close>: both are falsy, they compare equal and
  both print as \<^verbatim>\<open>0\<close>.
\<close>

type_synonym code_unit = "16 word"

type_synonym jsstr = "code_unit list"

datatype jsnum = NaN | NegInf | Fin rat | PosInf

datatype jsval =
    Undefined
  | Null
  | Bool bool
  | Num jsnum
  | Str jsstr
  | Arr "jsval list"
  | Obj "(jsstr \<times> jsval) list"

text \<open>What a \<^verbatim>\<open>throw\<close> carries; \<open>Rejected\<close> is a failure reported by a provider's client.\<close>

datatype exn = TypeError | SyntaxError | Error jsstr | Rejected jsstr

text \<open>An ASCII literal of the source as code units.\<close>

definition lit :: "string \<Rightarrow> jsstr" where
  "lit s = map of_char s"

subsection \<open>Numbers: comparison, \<^verbatim>\<open>Math.max\<close>, \<^verbatim>\<open>Math.min\<close>\<close>

text \<open>\<^verbatim>\<open>a < b\<close> on numbers: false as soon as one side is \<^verbatim>\<open>NaN\<close>.\<close>

fun num_lt :: "jsnum \<Rightarrow> jsnum \<Rightarrow> bool" where
  "num_lt NaN _ = False"
| "num_lt _ NaN = False"
| "num_lt _ NegInf = False"
| "num_lt NegInf _ = True"
| "num_lt PosInf _ = False"
| "num_lt _ PosInf = True"
| "num_lt (Fin a) (Fin b) = (a < b)"

text \<open>\<^verbatim>\<open>a <= b\<close> is \<^verbatim>\<open>!(b < a)\<close>, except that it is false when the comparison is undefined.\<close>

definition num_le :: "jsnum \<Rightarrow> jsnum \<Rightarrow> bool" where
  "num_le a b \<longleftrightarrow> a \<noteq> NaN \<and> b \<noteq> NaN \<and> \<not> num_lt b a"

definition Math_max :: "jsnum \<Rightarrow> jsnum \<Rightarrow> jsnum" where
  "Math_max a b = (if a = NaN \<or> b = NaN then NaN else if num_lt a b then b else a)"

definition Math_min :: "jsnum \<Rightarrow> jsnum \<Rightarrow> jsnum" where
  "Math_min a b = (if a = NaN \<or> b = NaN then NaN else if num_lt b a then b else a)"

subsection \<open>Truthiness and \<^verbatim>\<open>||\<close>\<close>

fun truthy :: "jsval \<Rightarrow> bool" where
  "truthy Undefined = False"
| "truthy Null = False"
| "truthy (Bool b) = b"
| "truthy (Num n) = (n \<noteq> NaN \<and> n \<noteq> Fin 0)"
| "truthy (Str s) = (s \<noteq> [])"
| "truthy (Arr xs) = True"
| "truthy (Obj kvs) = True"

definition js_or :: "jsval \<Rightarrow> jsval \<Rightarrow> jsval" where
  "js_or a b = (if truthy a then a else b)"

subsection \<open>White space, \<^verbatim>\<open>trim\<close>\<close>

text \<open>
  The characters that \<^verbatim>\<open>String.prototype.trim\<close>, the class \<^verbatim>\<open>\s\<close> and the numeric
  conversion of strings treat as white space: ECMAScript's WhiteSpace and LineTerminator.
\<close>

definition is_ws :: "code_unit \<Rightarrow> bool" where
  "is_ws c \<longleftrightarrow>
     c = 0x09 \<or> c = 0x0A \<or> c = 0x0B \<or> c = 0x0C \<or> c = 0x0D \<or> c = 0x20 \<or> c = 0xA0 \<or>
     c = 0x1680 \<or> (0x2000 \<le> c \<and> c \<le> 0x200A) \<or> c = 0x2028 \<or> c = 0x2029 \<or>
     c = 0x202F \<or> c = 0x205F \<or> c = 0x3000 \<or> c = 0xFEFF"

definition trim :: "jsstr \<Rightarrow> jsstr" where
  "trim s = rev (dropWhile is_ws (rev (dropWhile is_ws s)))"

subsection \<open>\<^verbatim>\<open>Number(v)\<close>\<close>

definition is_digit :: "code_unit \<Rightarrow> bool" where
  "is_digit c \<longleftrightarrow> 0x30 \<le> c \<and> c \<le> 0x39"

definition is_hex :: "code_unit \<Rightarrow> bool" where
  "is_hex c \<longleftrightarrow> is_digit c \<or> (0x41 \<le> c \<and> c \<le> 0x46) \<or> (0x61 \<le> c \<and> c \<le> 0x66)"

definition hex_val :: "code_unit \<Rightarrow> nat" where
  "hex_val c = (if is_digit c then unat c - 48 else if c \<le> 0x46 then unat c - 55 else unat c - 87)"

definition radix_value :: "nat \<Rightarrow> jsstr \<Rightarrow> nat" where
  "radix_value b ds = foldl (\<lambda>a c. b * a + hex_val c) 0 ds"

text \<open>\<^verbatim>\<open>0x\<close>, \<^verbatim>\<open>0o\<close> and \<^verbatim>\<open>0b\<close> literals: a prefix and at least one digit of the radix, no sign.\<close>

definition NonDecimalIntegerLiteral :: "jsstr \<Rightarrow> nat option" where
  "NonDecimalIntegerLiteral s =
     (case s of
        z # p # ds \<Rightarrow>
          if z \<noteq> 0x30 \<or> ds = [] then None
          else if (p = 0x78 \<or> p = 0x58) \<and> list_all is_hex ds then Some (radix_value 16 ds)
          else if (p = 0x6F \<or> p = 0x4F) \<and> list_all (\<lambda>c. 0x30 \<le> c \<and> c \<le> 0x37) ds
            then Some (radix_value 8 ds)
          else if (p = 0x62 \<or> p = 0x42) \<and> list_all (\<lambda>c. c = 0x30 \<or> c = 0x31) ds
            then Some (radix_value 2 ds)
          else None
      | _ \<Rightarrow> None)"

text \<open>The exponent part: empty, or \<^verbatim>\<open>e\<close>/\<^verbatim>\<open>E\<close>, an optional sign and at least one digit.\<close>

definition ExponentPart :: "jsstr \<Rightarrow> int option" where
  "ExponentPart s =
     (case s of
        [] \<Rightarrow> Some 0
      | e # t \<Rightarrow>
          if e \<noteq> 0x65 \<and> e \<noteq> 0x45 then None
          else (case t of
                  [] \<Rightarrow> None
                | g # ds \<Rightarrow>
                    if g = 0x2B \<or> g = 0x2D then
                      (if ds \<noteq> [] \<and> list_all is_digit ds
                       then Some ((if g = 0x2D then - 1 else 1) * int (radix_value 10 ds))
                       else None)
                    else if list_all is_digit t then Some (int (radix_value 10 t))
                    else None))"

definition scale10 :: "rat \<Rightarrow> int \<Rightarrow> rat" where
  "scale10 m e = (if 0 \<le> e then m * 10 ^ nat e else m / 10 ^ nat (- e))"

text \<open>
  The value of a literal is rounded to the nearest IEEE 754 binary64 number, a tie to the
  one with the even significand. \<open>bit_length n\<close> is the number of binary digits of \<open>n\<close>,
  and \<open>ilog2 a\<close> the exponent \<open>e\<close> with \<open>2 ^ e \<le> a < 2 ^ (e + 1)\<close> for a positive \<open>a\<close>.
  The doubles around \<open>a\<close> are the multiples of \<open>2 ^ p\<close>, where \<open>p = quantum a\<close> is \<open>e - 52\<close>
  for a normal number and \<open>- 1074\<close> for a subnormal one, and \<open>round_to p a\<close> is the nearest
  of them. A value that rounds to \<open>2 ^ 1024\<close> or more
  is infinite, and one that rounds to zero is zero (\<^verbatim>\<open>Number("1e-400")\<close> is \<^verbatim>\<open>0\<close>).
\<close>

fun bit_length :: "nat \<Rightarrow> nat" where
  "bit_length n = (if n = 0 then 0 else Suc (bit_length (n div 2)))"

declare bit_length.simps [simp del]

definition pow2 :: "int \<Rightarrow> rat" where
  "pow2 k = (if 0 \<le> k then 2 ^ nat k else 1 / 2 ^ nat (- k))"

definition ilog2 :: "rat \<Rightarrow> int" where
  "ilog2 a =
     (if 1 \<le> a then int (bit_length (nat \<lfloor>a\<rfloor>)) - 1
      else - int (bit_length (nat (\<lceil>1 / a\<rceil> - 1))))"

definition round_half_even :: "rat \<Rightarrow> int" where
  "round_half_even x =
     (let f = \<lfloor>x\<rfloor>; r = x - of_int f
      in if r < 1 / 2 then f else if 1 / 2 < r then f + 1 else if even f then f else f + 1)"

definition quantum :: "rat \<Rightarrow> int" where
  "quantum a = max (ilog2 a - 52) (- 1074)"

definition round_to :: "int \<Rightarrow> rat \<Rightarrow> rat" where
  "round_to p a = of_int (round_half_even (a / pow2 p)) * pow2 p"

definition RoundToDouble :: "rat \<Rightarrow> jsnum" where
  "RoundToDouble q =
     (if q = 0 then Fin 0
      else
        let r = round_to (quantum \<bar>q\<bar>) \<bar>q\<bar>
        in if pow2 1024 \<le> r then (if q < 0 then NegInf else PosInf)
           else Fin (if q < 0 then - r else r))"

text \<open>
  An unsigned decimal literal: \<^verbatim>\<open>Infinity\<close>, or digits with an optional fraction and
  exponent, where the integer part or the fraction has a digit.
\<close>

definition StrUnsignedDecimalLiteral :: "jsstr \<Rightarrow> jsnum option" where
  "StrUnsignedDecimalLiteral s =
     (if s = lit ''Infinity'' then Some PosInf
      else
        let ip = takeWhile is_digit s;
            r1 = dropWhile is_digit s;
            dot = (r1 \<noteq> [] \<and> hd r1 = 0x2E);
            fp = (if dot then takeWhile is_digit (tl r1) else []);
            r2 = (if dot then dropWhile is_digit (tl r1) else r1)
        in if ip = [] \<and> fp = [] then None
           else (case ExponentPart r2 of
                   None \<Rightarrow> None
                 | Some e \<Rightarrow>
                     Some (RoundToDouble
                             (scale10 (of_nat (radix_value 10 (ip @ fp))) (e - int (length fp))))))"

definition negate :: "jsnum \<Rightarrow> jsnum" where
  "negate n = (case n of NaN \<Rightarrow> NaN | NegInf \<Rightarrow> PosInf | PosInf \<Rightarrow> NegInf | Fin q \<Rightarrow> Fin (- q))"

definition StrDecimalLiteral :: "jsstr \<Rightarrow> jsnum option" where
  "StrDecimalLiteral s =
     (case s of
        [] \<Rightarrow> None
      | c # t \<Rightarrow>
          if c = 0x2B then StrUnsignedDecimalLiteral t
          else if c = 0x2D then map_option negate (StrUnsignedDecimalLiteral t)
          else StrUnsignedDecimalLiteral s)"

text \<open>
  The numeric value of a string: white space is trimmed, the empty string is 0, a string
  that is no numeric literal is \<^verbatim>\<open>NaN\<close>. The result is the literal's mathematical value
  rounded to a double, so \<^verbatim>\<open>Number("80.000000000000001")\<close> is \<^verbatim>\<open>80\<close> and
  \<^verbatim>\<open>Number("1e999")\<close> is \<^verbatim>\<open>Infinity\<close>.
\<close>

definition StringToNumber :: "jsstr \<Rightarrow> jsnum" where
  "StringToNumber str =
     (let s = trim str in
      if s = [] then Fin 0
      else (case NonDecimalIntegerLiteral s of
              Some n \<Rightarrow> RoundToDouble (of_nat n)
            | None \<Rightarrow> (case StrDecimalLiteral s of Some n \<Rightarrow> n | None \<Rightarrow> NaN)))"

text \<open>
  Objects come from \<^verbatim>\<open>JSON.parse\<close> or from the query-string parser: plain objects with
  data properties and arrays. Converting one to a primitive calls \<^verbatim>\<open>toString\<close>; an
  own property of that name holds a JSON value, which is not callable, and then the
  conversion throws a \<^verbatim>\<open>TypeError\<close>. An array converts its elements in turn
  (\<^verbatim>\<open>null\<close> and \<^verbatim>\<open>undefined\<close> give the empty string) and joins them with commas.
\<close>

definition has_own :: "(jsstr \<times> jsval) list \<Rightarrow> jsstr \<Rightarrow> bool" where
  "has_own kvs k \<longleftrightarrow> map_of kvs k \<noteq> None"

fun conversion_throws :: "jsval \<Rightarrow> bool" where
  "conversion_throws (Obj kvs) = has_own kvs (lit ''toString'')"
| "conversion_throws (Arr xs) = list_ex conversion_throws xs"
| "conversion_throws _ = False"

text \<open>
  \<^verbatim>\<open>Number(v)\<close>. A plain object prints as \<^verbatim>\<open>[object Object]\<close>, which is no number. An
  array goes through its string: the empty array through the empty string, an array of
  one element through that element's string (a number prints so that it reads back as
  itself), and a longer one through a string with a comma, which is no number.
\<close>

fun ToNumber :: "jsval \<Rightarrow> exn + jsnum" where
  "ToNumber Undefined = Inr NaN"
| "ToNumber Null = Inr (Fin 0)"
| "ToNumber (Bool b) = Inr (Fin (if b then 1 else 0))"
| "ToNumber (Num n) = Inr n"
| "ToNumber (Str s) = Inr (StringToNumber s)"
| "ToNumber (Obj kvs) = (if has_own kvs (lit ''toString'') then Inl TypeError else Inr NaN)"
| "ToNumber (Arr []) = Inr (Fin 0)"
| "ToNumber (Arr [x]) =
     (case x of
        Undefined \<Rightarrow> Inr (Fin 0)
      | Null \<Rightarrow> Inr (Fin 0)
      | Bool b \<Rightarrow> Inr NaN
      | _ \<Rightarrow> ToNumber x)"
| "ToNumber (Arr (x # y # zs)) =
     (if conversion_throws (Arr (x # y # zs)) then Inl TypeError else Inr NaN)"

section \<open>Strings\<close>

subsection \<open>\<^verbatim>\<open>String(v)\<close>\<close>

fun nat_digits :: "nat \<Rightarrow> jsstr" where
  "nat_digits n =
     (if n < 10 then [of_nat (48 + n)] else nat_digits (n div 10) @ [of_nat (48 + n mod 10)])"

declare nat_digits.simps [simp del]

text \<open>
  A number as a string. An integer below \<open>2\<^sup>5\<^sup>3\<close> in absolute value is a double and
  prints as its decimal digits. The digits JavaScript prints for any other finite number
  (the shortest ones that read back as the same double) depend on its binary
  representation; they are the parameter \<open>fmt\<close>, and nothing below depends on them.
\<close>

definition NumberToString :: "(rat \<Rightarrow> jsstr) \<Rightarrow> jsnum \<Rightarrow> jsstr" where
  "NumberToString fmt n =
     (case n of
        NaN \<Rightarrow> lit ''NaN''
      | NegInf \<Rightarrow> lit ''-Infinity''
      | PosInf \<Rightarrow> lit ''Infinity''
      | Fin q \<Rightarrow>
          if q = of_int \<lfloor>q\<rfloor> \<and> \<bar>q\<bar> < 2 ^ 53
          then (if q < 0 then lit ''-'' else []) @ nat_digits (nat \<bar>\<lfloor>q\<rfloor>\<bar>)
          else fmt q)"

text \<open>\<^verbatim>\<open>Array.prototype.join\<close> on strings.\<close>

fun join_js :: "jsstr list \<Rightarrow> jsstr \<Rightarrow> jsstr" where
  "join_js [] sep = []"
| "join_js [x] sep = x"
| "join_js (x # y # ys) sep = x @ sep @ join_js (y # ys) sep"

fun ToString :: "(rat \<Rightarrow> jsstr) \<Rightarrow> jsval \<Rightarrow> exn + jsstr"
  and ToString_elements :: "(rat \<Rightarrow> jsstr) \<Rightarrow> jsval list \<Rightarrow> exn + jsstr list"
where
  "ToString fmt Undefined = Inr (lit ''undefined'')"
| "ToString fmt Null = Inr (lit ''null'')"
| "ToString fmt (Bool b) = Inr (if b then lit ''true'' else lit ''false'')"
| "ToString fmt (Num n) = Inr (NumberToString fmt n)"
| "ToString fmt (Str s) = Inr s"
| "ToString fmt (Obj kvs) =
     (if has_own kvs (lit ''toString'') then Inl TypeError else Inr (lit ''[object Object]''))"
| "ToString fmt (Arr xs) =
     (case ToString_elements fmt xs of
        Inl e \<Rightarrow> Inl e
      | Inr ss \<Rightarrow> Inr (join_js ss (lit '','')))"
| "ToString_elements fmt [] = Inr []"
| "ToString_elements fmt (x # xs) =
     (case (if x = Undefined \<or> x = Null then Inr [] else ToString fmt x) of
        Inl e \<Rightarrow> Inl e
      | Inr s \<Rightarrow>
          (case ToString_elements fmt xs of
             Inl e \<Rightarrow> Inl e
           | Inr ss \<Rightarrow> Inr (s # ss)))"

subsection \<open>Splitting, searching, replacing\<close>

text \<open>\<^verbatim>\<open>s.split(/\s+/)\<close>: the pieces between the maximal runs of white space.\<close>

function split_ws :: "jsstr \<Rightarrow> jsstr list" where
  "split_ws [] = [[]]"
| "split_ws (c # cs) =
     (if is_ws c then [] # split_ws (dropWhile is_ws cs)
      else (case split_ws cs of [] \<Rightarrow> [[c]] | w # ws \<Rightarrow> (c # w) # ws))"
  by pat_completeness auto
termination
  by (relation "measure length") (auto simp add: length_dropWhile_le less_Suc_eq_le)

text \<open>\<^verbatim>\<open>String(x).trim().split(/\s+/).filter(Boolean)\<close> on a string.\<close>

definition split_words :: "jsstr \<Rightarrow> jsstr list" where
  "split_words s = filter (\<lambda>w. w \<noteq> []) (split_ws (trim s))"

text \<open>\<^verbatim>\<open>s.split("\n")\<close>, for the separator \<open>c\<close>.\<close>

fun split_on :: "code_unit \<Rightarrow> jsstr \<Rightarrow> jsstr list" where
  "split_on c [] = [[]]"
| "split_on c (x # xs) =
     (if x = c then [] # split_on c xs
      else (case split_on c xs of [] \<Rightarrow> [[x]] | l # ls \<Rightarrow> (x # l) # ls))"

text \<open>\<^verbatim>\<open>s.replaceAll(c, rep)\<close> for a pattern of one character.\<close>

definition replaceAll :: "code_unit \<Rightarrow> jsstr \<Rightarrow> jsstr \<Rightarrow> jsstr" where
  "replaceAll c rep s = concat (map (\<lambda>x. if x = c then rep else [x]) s)"

text \<open>\<^verbatim>\<open>s.indexOf(c)\<close> and \<^verbatim>\<open>s.lastIndexOf(c)\<close>: \<open>- 1\<close> when \<open>c\<close> does not occur.\<close>

definition indexOf :: "jsstr \<Rightarrow> code_unit \<Rightarrow> int" where
  "indexOf s c = (if c \<in> set s then int (length (takeWhile (\<lambda>x. x \<noteq> c) s)) else - 1)"

definition lastIndexOf :: "jsstr \<Rightarrow> code_unit \<Rightarrow> int" where
  "lastIndexOf s c =
     (if c \<in> set s then int (length s) - 1 - int (length (takeWhile (\<lambda>x. x \<noteq> c) (rev s)))
      else - 1)"

text \<open>\<^verbatim>\<open>s.slice(a, b)\<close> for \<open>0 \<le> a\<close> and \<open>0 \<le> b\<close>.\<close>

definition slice :: "jsstr \<Rightarrow> int \<Rightarrow> int \<Rightarrow> jsstr" where
  "slice s a b = take (nat (b - a)) (drop (nat a) s)"

text \<open>\<^verbatim>\<open>/[\u0590-\u05FF]/.test(s)\<close> and \<^verbatim>\<open>/[\u0900-\u097F]/.test(s)\<close>.\<close>

definition hasHebrew :: "jsstr \<Rightarrow> bool" where
  "hasHebrew s = list_ex (\<lambda>c. 0x0590 \<le> c \<and> c \<le> 0x05FF) s"

definition hasDeva :: "jsstr \<Rightarrow> bool" where
  "hasDeva s = list_ex (\<lambda>c. 0x0900 \<le> c \<and> c \<le> 0x097F) s"

subsection \<open>Properties and exceptions\<close>

text \<open>
  \<open>own v k\<close> reads the property \<open>k\<close> of a value that is neither \<^verbatim>\<open>null\<close> nor
  \<^verbatim>\<open>undefined\<close>. The program reads the names \<^verbatim>\<open>text\<close>, \<^verbatim>\<open>level\<close>, \<^verbatim>\<open>rate\<close>,
  \<^verbatim>\<open>pauseMs\<close>, \<^verbatim>\<open>sentence\<close>, \<^verbatim>\<open>choices\<close>, \<^verbatim>\<open>message\<close>, \<^verbatim>\<open>content\<close>, \<^verbatim>\<open>words\<close> and
  \<^verbatim>\<open>he\<close>, none of which a prototype defines; so only an object's own properties count.
\<close>

fun own :: "jsval \<Rightarrow> jsstr \<Rightarrow> jsval" where
  "own (Obj kvs) k = (case map_of kvs k of None \<Rightarrow> Undefined | Some v \<Rightarrow> v)"
| "own _ k = Undefined"

text \<open>\<^verbatim>\<open>v.k\<close>: a \<^verbatim>\<open>TypeError\<close> on \<^verbatim>\<open>null\<close> and \<^verbatim>\<open>undefined\<close>.\<close>

definition get_prop :: "jsval \<Rightarrow> jsstr \<Rightarrow> exn + jsval" where
  "get_prop v k = (if v = Undefined \<or> v = Null then Inl TypeError else Inr (own v k))"

text \<open>\<^verbatim>\<open>v[i]\<close> for an index \<open>i\<close>.\<close>

fun get_index :: "jsval \<Rightarrow> nat \<Rightarrow> exn + jsval" where
  "get_index Undefined i = Inl TypeError"
| "get_index Null i = Inl TypeError"
| "get_index (Arr xs) i = Inr (if i < length xs then xs ! i else Undefined)"
| "get_index (Str s) i = Inr (if i < length s then Str [s ! i] else Undefined)"
| "get_index (Obj kvs) i = Inr (own (Obj kvs) (nat_digits i))"
| "get_index _ i = Inr Undefined"

text \<open>Sequencing of steps that may throw.\<close>

definition and_then :: "exn + 'a \<Rightarrow> ('a \<Rightarrow> exn + 'b) \<Rightarrow> exn + 'b" where
  "and_then r f = (case r of Inl e \<Rightarrow> Inl e | Inr x \<Rightarrow> f x)"

text \<open>A destructuring default, \<^verbatim>\<open>{ k = d }\<close>: it replaces \<^verbatim>\<open>undefined\<close> only.\<close>

definition defaulted :: "jsval \<Rightarrow> jsval \<Rightarrow> jsval" where
  "defaulted v d = (if v = Undefined then d else v)"

section \<open>The numeric parameters of the handlers\<close>

text \<open>
  \<^verbatim>\<open>const count = Math.max(1, Math.min(20, Number(req.query.count || 3)));\<close>
  The argument is \<^verbatim>\<open>req.query.count\<close>: \<open>Undefined\<close> when the query has no such
  parameter, otherwise a string (or an array or object of strings).
\<close>

definition news_count :: "jsval \<Rightarrow> exn + jsnum" where
  "news_count count =
     (case ToNumber (js_or count (Num (Fin 3))) of
        Inl e \<Rightarrow> Inl e
      | Inr n \<Rightarrow> Inr (Math_max (Fin 1) (Math_min (Fin 20) n)))"

text \<open>
  \<^verbatim>\<open>const r = Math.max(60, Math.min(140, Number(ratePercent || 100)));\<close>
  the first line of \<^verbatim>\<open>ratePercentToSsmlRate\<close>.
\<close>

definition effective_rate :: "jsval \<Rightarrow> exn + jsnum" where
  "effective_rate ratePercent =
     (case ToNumber (js_or ratePercent (Num (Fin 100))) of
        Inl e \<Rightarrow> Inl e
      | Inr n \<Rightarrow> Inr (Math_max (Fin 60) (Math_min (Fin 140) n)))"

definition ratePercentToSsmlRate :: "jsval \<Rightarrow> exn + jsstr" where
  "ratePercentToSsmlRate ratePercent =
     (case effective_rate ratePercent of
        Inl e \<Rightarrow> Inl e
      | Inr r \<Rightarrow>
          Inr (if num_le r (Fin 80) then lit ''x-slow''
               else if num_le r (Fin 95) then lit ''slow''
               else if num_le r (Fin 110) then lit ''medium''
               else if num_le r (Fin 125) then lit ''fast''
               else lit ''x-fast''))"

text \<open>
  \<^verbatim>\<open>const safePause = Math.max(0, Math.min(2000, Number(pauseMs || 0)));\<close>
  in \<^verbatim>\<open>buildHindiSsml\<close>.
\<close>

definition safePause :: "jsval \<Rightarrow> exn + jsnum" where
  "safePause pauseMs =
     (case ToNumber (js_or pauseMs (Num (Fin 0))) of
        Inl e \<Rightarrow> Inl e
      | Inr n \<Rightarrow> Inr (Math_max (Fin 0) (Math_min (Fin 2000) n)))"

section \<open>The server\<close>

subsection \<open>Requests, replies and the providers\<close>

text \<open>
  An outbound call: a chat completion (model and the one user message) or a speech
  synthesis (the SSML document).
\<close>

datatype call = ChatCompletion jsstr jsstr | Synthesis jsstr

text \<open>
  What the speech client does with a document: it throws while the synthesizer is set up,
  or calls the result callback (with audio, without completion, or the callback itself
  throws), or calls the error callback.
\<close>

datatype speech_outcome =
    Setup_threw exn
  | Completed "8 word list"
  | Not_completed jsstr
  | Callback_threw exn
  | Failed jsstr

text \<open>
  The environment of a request: the number printer of the runtime, \<^verbatim>\<open>JSON.parse\<close>
  (\<open>None\<close> when it throws a \<^verbatim>\<open>SyntaxError\<close>), and the two providers, each giving the
  outcome of a call.
\<close>

record env =
  number_format :: "rat \<Rightarrow> jsstr"
  JSON_parse :: "jsstr \<Rightarrow> jsval option"
  chat_completions_create :: "jsstr \<Rightarrow> exn + jsval"
  speakSsmlAsync :: "jsstr \<Rightarrow> speech_outcome"

text \<open>
  A reply: \<open>Json n v\<close> is \<^verbatim>\<open>res.status(n).json(v)\<close> (\<^verbatim>\<open>res.json(v)\<close> has status 200),
  \<open>Failure n msg e\<close> is \<^verbatim>\<open>res.status(n).json({ error: msg, details: String(e) })\<close>, and
  \<open>Audio bytes\<close> is the \<^verbatim>\<open>audio/mpeg\<close> response. A handler whose promise rejects sends
  nothing: \<open>Unhandled\<close>.
\<close>

datatype reply = Json nat jsval | Failure nat jsstr exn | Audio "8 word list"

datatype outcome = Responded reply | Unhandled exn

record result =
  response :: outcome
  outbound :: "call list"

definition error_body :: "jsstr \<Rightarrow> jsval" where
  "error_body msg = Obj [(lit ''error'', Str msg)]"

definition model_name :: jsstr where
  "model_name = lit ''gpt-4.1-mini''"

text \<open>\<^verbatim>\<open>completion.choices[0].message.content\<close>\<close>

definition message_content :: "jsval \<Rightarrow> exn + jsval" where
  "message_content completion =
     and_then (get_prop completion (lit ''choices'')) (\<lambda>choices.
     and_then (get_index choices 0) (\<lambda>choice.
     and_then (get_prop choice (lit ''message'')) (\<lambda>message.
     get_prop message (lit ''content''))))"

subsection \<open>Startup (lines 20 to 30)\<close>

definition required :: "jsstr list" where
  "required =
     [lit ''NEWSAPI_KEY'', lit ''OPENAI_API_KEY'', lit ''AZURE_SPEECH_KEY'',
      lit ''AZURE_SPEECH_REGION'']"

text \<open>\<^verbatim>\<open>process.env[k]\<close>: a string, or \<^verbatim>\<open>undefined\<close> when the variable is not set.\<close>

definition env_value :: "(jsstr \<Rightarrow> jsstr option) \<Rightarrow> jsstr \<Rightarrow> jsval" where
  "env_value penv k = (case penv k of None \<Rightarrow> Undefined | Some s \<Rightarrow> Str s)"

definition missing :: "(jsstr \<Rightarrow> jsstr option) \<Rightarrow> jsstr list" where
  "missing penv = filter (\<lambda>k. \<not> truthy (env_value penv k)) required"

text \<open>
  The process either exits with a status after one line on the error stream
  (\<^verbatim>\<open>console.error\<close> separates its arguments by a space), or goes on to serve.
\<close>

datatype startup = Exit nat jsstr | Serving

definition start :: "(jsstr \<Rightarrow> jsstr option) \<Rightarrow> startup" where
  "start penv =
     (if length (missing penv) \<noteq> 0
      then Exit 1 (lit ''Missing env vars:'' @ lit '' '' @ join_js (missing penv) (lit '', ''))
      else Serving)"

subsection \<open>Summarize (lines 71 to 128)\<close>

text \<open>The three level guides of lines 75 to 80 (Hebrew text, as code units).\<close>

definition levelGuide_beginner :: jsstr where
  "levelGuide_beginner =
    [0x5D4, 0x5D9, 0x5E0, 0x5D3, 0x5D9, 0x5EA, 0x20, 0x5E4, 0x5E9, 0x5D5, 0x5D8, 0x5D4,
     0x20, 0x5DE, 0x5D0, 0x5D5, 0x5D3, 0x2C, 0x20, 0x5DE, 0x5E9, 0x5E4, 0x5D8, 0x5D9,
     0x5DD, 0x20, 0x5E7, 0x5E6, 0x5E8, 0x5D9, 0x5DD, 0x20, 0x5DE, 0x5D0, 0x5D5, 0x5D3,
     0x2C, 0x20, 0x5D0, 0x5D5, 0x5E6, 0x5E8, 0x20, 0x5DE, 0x5D9, 0x5DC, 0x5D9, 0x5DD,
     0x20, 0x5D1, 0x5E1, 0x5D9, 0x5E1, 0x5D9, 0x2E]"

definition levelGuide_intermediate :: jsstr where
  "levelGuide_intermediate =
    [0x5D4, 0x5D9, 0x5E0, 0x5D3, 0x5D9, 0x5EA, 0x20, 0x5E4, 0x5E9, 0x5D5, 0x5D8, 0x5D4,
     0x20, 0x5D0, 0x5DA, 0x20, 0x5E2, 0x5E9, 0x5D9, 0x5E8, 0x5D4, 0x20, 0x5D9, 0x5D5,
     0x5EA, 0x5E8, 0x2C, 0x20, 0x5E2, 0x5D3, 0x5D9, 0x5D9, 0x5DF, 0x20, 0x5DE, 0x5E9,
     0x5E4, 0x5D8, 0x5D9, 0x5DD, 0x20, 0x5E7, 0x5E6, 0x5E8, 0x5D9, 0x5DD, 0x2E]"

definition levelGuide_advanced :: jsstr where
  "levelGuide_advanced =
    [0x5D4, 0x5D9, 0x5E0, 0x5D3, 0x5D9, 0x5EA, 0x20, 0x5DE, 0x5EA, 0x5E7, 0x5D3, 0x5DE,
     0x5EA, 0x20, 0x5D9, 0x5D5, 0x5EA, 0x5E8, 0x2C, 0x20, 0x5D0, 0x5DA, 0x20, 0x5EA,
     0x5DE, 0x5E6, 0x5D9, 0x5EA, 0x5D9, 0x5EA, 0x20, 0x5D5, 0x5D1, 0x5E8, 0x5D5, 0x5E8,
     0x5D4, 0x2E]"

text \<open>The template of lines 82 to 102 up to \<^verbatim>\<open>${levelGuide}\<close>.\<close>

definition summarize_prompt_head :: jsstr where
  "summarize_prompt_head =
    [0xA, 0x5DB, 0x5EA, 0x5D5, 0x5D1, 0x20, 0x34, 0x2013, 0x36, 0x20, 0x5DE, 0x5E9,
     0x5E4, 0x5D8, 0x5D9, 0x5DD, 0x20, 0x5E7, 0x5E6, 0x5E8, 0x5D9, 0x5DD, 0x20, 0x5E9,
     0x5DE, 0x5E1, 0x5DB, 0x5DE, 0x5D9, 0x5DD, 0x20, 0x5D0, 0x5EA, 0x20, 0x5D4, 0x5D9,
     0x5D3, 0x5D9, 0x5E2, 0x5D4, 0x2E, 0xA]"

text \<open>The template between \<^verbatim>\<open>${levelGuide}\<close> and \<^verbatim>\<open>${text}\<close>.\<close>

definition summarize_prompt_rules :: jsstr where
  "summarize_prompt_rules =
    [0xA, 0xA, 0x5DB, 0x5DC, 0x5DC, 0x5D9, 0x5DD, 0x20, 0x5D7, 0x5E9, 0x5D5, 0x5D1,
     0x5D9, 0x5DD, 0x3A, 0xA, 0x2D, 0x20, 0x5DB, 0x5DC, 0x20, 0x5DE, 0x5E9, 0x5E4,
     0x5D8, 0x20, 0x5D1, 0x5D4, 0x5D9, 0x5E0, 0x5D3, 0x5D9, 0x5EA, 0x20, 0x5D1, 0x5DC,
     0x5D1, 0x5D3, 0x20, 0x28, 0x5DB, 0x5EA, 0x5D1, 0x20, 0x5D3, 0x5D5, 0x5D5, 0x5D0,
     0x5E0, 0x5D2, 0x5E8, 0x5D9, 0x29, 0x2E, 0xA, 0x2D, 0x20, 0x5DE, 0x5D9, 0x5D3, 0x20,
     0x5D0, 0x5D7, 0x5E8, 0x5D9, 0x20, 0x5DB, 0x5DC, 0x20, 0x5DE, 0x5E9, 0x5E4, 0x5D8,
     0x20, 0x5D1, 0x5D4, 0x5D9, 0x5E0, 0x5D3, 0x5D9, 0x5EA, 0x20, 0x2013, 0x20, 0x5E9,
     0x5D5, 0x5E8, 0x5D4, 0x20, 0x5E0, 0x5E4, 0x5E8, 0x5D3, 0x5EA, 0x20, 0x5E2, 0x5DD,
     0x20, 0x5EA, 0x5E8, 0x5D2, 0x5D5, 0x5DD, 0x20, 0x5DC, 0x5E2, 0x5D1, 0x5E8, 0x5D9,
     0x5EA, 0x20, 0x5D1, 0x5DC, 0x5D1, 0x5D3, 0x2E, 0xA, 0x2D, 0x20, 0x5D0, 0x5E1,
     0x5D5, 0x5E8, 0x20, 0x5DC, 0x5D4, 0x5E9, 0x5EA, 0x5DE, 0x5E9, 0x20, 0x5D1, 0x5D0,
     0x5E0, 0x5D2, 0x5DC, 0x5D9, 0x5EA, 0x20, 0x5D1, 0x5DB, 0x5DC, 0x5DC, 0x2E, 0xA,
     0x2D, 0x20, 0x5D4, 0x5E2, 0x5D1, 0x5E8, 0x5D9, 0x5EA, 0x20, 0x5E7, 0x5E6, 0x5E8,
     0x5D4, 0x20, 0x5D5, 0x5D1, 0x5E8, 0x5D5, 0x5E8, 0x5D4, 0x2E, 0xA, 0x2D, 0x20,
     0x5D0, 0x5DC, 0x20, 0x5EA, 0x5E2, 0x5EA, 0x5D9, 0x5E7, 0x20, 0x5DE, 0x5E9, 0x5E4,
     0x5D8, 0x5D9, 0x5DD, 0x20, 0x5DE, 0x5D4, 0x5DE, 0x5E7, 0x5D5, 0x5E8, 0x2E, 0xA,
     0xA, 0x5E4, 0x5D5, 0x5E8, 0x5DE, 0x5D8, 0x20, 0x5D7, 0x5D5, 0x5D1, 0x5D4, 0x3A,
     0xA, 0x5B, 0x5DE, 0x5E9, 0x5E4, 0x5D8, 0x20, 0x5D1, 0x5D4, 0x5D9, 0x5E0, 0x5D3,
     0x5D9, 0x5EA, 0x5D, 0xA, 0x5B, 0x5EA, 0x5E8, 0x5D2, 0x5D5, 0x5DD, 0x20, 0x5DC,
     0x5E2, 0x5D1, 0x5E8, 0x5D9, 0x5EA, 0x5D, 0xA, 0xA, 0x5B, 0x5DE, 0x5E9, 0x5E4,
     0x5D8, 0x20, 0x5D1, 0x5D4, 0x5D9, 0x5E0, 0x5D3, 0x5D9, 0x5EA, 0x5D, 0xA, 0x5B,
     0x5EA, 0x5E8, 0x5D2, 0x5D5, 0x5DD, 0x20, 0x5DC, 0x5E2, 0x5D1, 0x5E8, 0x5D9, 0x5EA,
     0x5D, 0xA, 0xA, 0x5D9, 0x5D3, 0x5D9, 0x5E2, 0x5D4, 0x3A, 0xA]"

definition levelGuide :: "jsval \<Rightarrow> jsstr" where
  "levelGuide level =
     (if level = Str (lit ''beginner'') then levelGuide_beginner
      else if level = Str (lit ''intermediate'') then levelGuide_intermediate
      else levelGuide_advanced)"

definition summarize_prompt :: "jsval \<Rightarrow> jsstr \<Rightarrow> jsstr" where
  "summarize_prompt level text =
     trim (summarize_prompt_head @ levelGuide level @ summarize_prompt_rules @ text @ [0x0A])"

text \<open>
  Lines 113 to 122: a line without a Hebrew or Devanagari character becomes empty, any
  other line is trimmed; the empty strings are filtered out and the rest joined again.
\<close>

definition filter_lines :: "jsstr \<Rightarrow> jsstr" where
  "filter_lines result =
     join_js
       (filter (\<lambda>l. l \<noteq> [])
          (map (\<lambda>line. if \<not> hasHebrew line \<and> \<not> hasDeva line then [] else trim line)
             (split_on 0x0A result)))
       [0x0A]"

text \<open>
  Lines 110 to 122 on the completion. A content that is truthy and no string has no
  \<^verbatim>\<open>split\<close> method, and calling it throws.
\<close>

definition summarize_result :: "jsval \<Rightarrow> exn + jsstr" where
  "summarize_result completion =
     and_then (message_content completion) (\<lambda>content.
       case js_or content (Str []) of
         Str s \<Rightarrow> Inr (filter_lines s)
       | _ \<Rightarrow> Inl TypeError)"

definition summarize_handler :: "env \<Rightarrow> jsval \<Rightarrow> result" where
  "summarize_handler E body =
     (let b = js_or body (Obj []);
          text = own b (lit ''text'');
          level = defaulted (own b (lit ''level'')) (Str (lit ''beginner''))
      in if \<not> truthy text
         then \<lparr>response = Responded (Json 400 (error_body (lit ''Missing text''))),
               outbound = []\<rparr>
         else (case ToString (number_format E) text of
                 Inl e \<Rightarrow> \<lparr>response = Unhandled e, outbound = []\<rparr>
               | Inr t \<Rightarrow>
                   let prompt = summarize_prompt level t
                   in \<lparr>response =
                          Responded
                            (case and_then (chat_completions_create E prompt) summarize_result of
                               Inl e \<Rightarrow> Failure 500 (lit ''OpenAI error'') e
                             | Inr r \<Rightarrow> Json 200 (Obj [(lit ''result'', Str r)])),
                        outbound = [ChatCompletion model_name prompt]\<rparr>))"

subsection \<open>Speak (lines 131 to 217)\<close>

definition escapeXml :: "jsstr \<Rightarrow> jsstr" where
  \<open>escapeXml s =
     replaceAll 0x27 (lit ''&apos;'')
       (replaceAll 0x22 (lit ''&quot;'')
          (replaceAll 0x3E (lit ''&gt;'')
             (replaceAll 0x3C (lit ''&lt;'')
                (replaceAll 0x26 (lit ''&amp;'') s))))\<close>

text \<open>The template of lines 157 to 164, trimmed.\<close>

definition ssml_document :: "jsstr \<Rightarrow> jsstr \<Rightarrow> jsstr" where
  \<open>ssml_document rateTag body =
     trim
       (lit ''\<newline><speak version="1.0" xml:lang="hi-IN" xmlns="http://www.w3.org/2001/10/synthesis">''
        @ lit ''\<newline>  <voice name="hi-IN-SwaraNeural">''
        @ lit ''\<newline>    <prosody rate="'' @ rateTag @ lit ''">''
        @ lit ''\<newline>      '' @ body
        @ lit ''\<newline>    </prosody>''
        @ lit ''\<newline>  </voice>''
        @ lit ''\<newline></speak>'')\<close>

text \<open>Line 154: the break marker and the joiner for a pause \<open>sp\<close>.\<close>

definition break_marker :: "(rat \<Rightarrow> jsstr) \<Rightarrow> jsnum \<Rightarrow> jsstr" where
  \<open>break_marker fmt sp = lit ''<break time="'' @ NumberToString fmt sp @ lit ''ms"/>''\<close>

definition joiner :: "(rat \<Rightarrow> jsstr) \<Rightarrow> jsnum \<Rightarrow> jsstr" where
  "joiner fmt sp = (if num_lt (Fin 0) sp then break_marker fmt sp else lit '' '')"

text \<open>Lines 153 to 155: the body of the document for a text and a pause.\<close>

definition ssml_body :: "(rat \<Rightarrow> jsstr) \<Rightarrow> jsstr \<Rightarrow> jsnum \<Rightarrow> jsstr" where
  "ssml_body fmt s sp = join_js (map escapeXml (split_words s)) (joiner fmt sp)"

definition buildHindiSsml :: "(rat \<Rightarrow> jsstr) \<Rightarrow> jsval \<Rightarrow> jsval \<Rightarrow> jsval \<Rightarrow> exn + jsstr" where
  "buildHindiSsml fmt text ratePercent pauseMs =
     and_then (ratePercentToSsmlRate ratePercent) (\<lambda>rateTag.
     and_then (safePause pauseMs) (\<lambda>sp.
     and_then (ToString fmt text) (\<lambda>s.
       Inr (ssml_document rateTag (ssml_body fmt s sp)))))"

definition speak_handler :: "env \<Rightarrow> jsval \<Rightarrow> result" where
  "speak_handler E body =
     (let b = js_or body (Obj []);
          text = own b (lit ''text'');
          rate = defaulted (own b (lit ''rate'')) (Num (Fin 100));
          pauseMs = defaulted (own b (lit ''pauseMs'')) (Num (Fin 0))
      in if \<not> truthy text
         then \<lparr>response = Responded (Json 400 (error_body (lit ''Missing text''))),
               outbound = []\<rparr>
         else (case buildHindiSsml (number_format E) text rate pauseMs of
                 Inl e \<Rightarrow> \<lparr>response = Unhandled e, outbound = []\<rparr>
               | Inr ssml \<Rightarrow>
                   (case speakSsmlAsync E ssml of
                      Setup_threw e \<Rightarrow>
                        \<lparr>response = Responded (Failure 500 (lit ''Speech setup error'') e),
                         outbound = []\<rparr>
                    | Completed audio \<Rightarrow>
                        \<lparr>response = Responded (Audio audio), outbound = [Synthesis ssml]\<rparr>
                    | Not_completed reason \<Rightarrow>
                        \<lparr>response =
                           Responded
                             (Json 500
                                (Obj [(lit ''error'', Str (lit ''Speech not completed'')),
                                      (lit ''reason'', Str reason)])),
                         outbound = [Synthesis ssml]\<rparr>
                    | Callback_threw e \<Rightarrow>
                        \<lparr>response = Responded (Failure 500 (lit ''Speech handling error'') e),
                         outbound = [Synthesis ssml]\<rparr>
                    | Failed err \<Rightarrow>
                        \<lparr>response =
                           Responded
                             (Json 500
                                (Obj [(lit ''error'', Str (lit ''Speech error'')),
                                      (lit ''details'', Str err)])),
                         outbound = [Synthesis ssml]\<rparr>)))"

subsection \<open>Word map (lines 220 to 275)\<close>

text \<open>The template of lines 227 to 241 up to the numbered list of words.\<close>

definition wordmap_prompt_head :: jsstr where
  "wordmap_prompt_head =
    [0xA, 0x5D0, 0x5EA, 0x2F, 0x5D4, 0x20, 0x5DE, 0x5EA, 0x5E8, 0x5D2, 0x5DD, 0x2F,
     0x5EA, 0x20, 0x5DC, 0x5D4, 0x5E2, 0x5D1, 0x5E8, 0x5D9, 0x5EA, 0x20, 0x5D1, 0x5DC,
     0x5D1, 0x5D3, 0x2E, 0xA, 0x5D4, 0x5D7, 0x5D6, 0x5E8, 0x2F, 0x5D9, 0x20, 0x4A, 0x53,
     0x4F, 0x4E, 0x20, 0x5D1, 0x5DC, 0x5D1, 0x5D3, 0x2C, 0x20, 0x5D1, 0x5D3, 0x5D9,
     0x5D5, 0x5E7, 0x20, 0x5D1, 0x5E4, 0x5D5, 0x5E8, 0x5DE, 0x5D8, 0x3A, 0xA, 0x7B,
     0x22, 0x77, 0x6F, 0x72, 0x64, 0x73, 0x22, 0x3A, 0x5B, 0x7B, 0x22, 0x68, 0x69, 0x22,
     0x3A, 0x22, 0x2E, 0x2E, 0x2E, 0x22, 0x2C, 0x22, 0x68, 0x65, 0x22, 0x3A, 0x22, 0x2E,
     0x2E, 0x2E, 0x22, 0x7D, 0x2C, 0x20, 0x2E, 0x2E, 0x2E, 0x5D, 0x7D, 0xA, 0xA, 0x5D7,
     0x5D5, 0x5E7, 0x5D9, 0x5DD, 0x20, 0x28, 0x5D7, 0x5E9, 0x5D5, 0x5D1, 0x20, 0x5DE,
     0x5D0, 0x5D5, 0x5D3, 0x29, 0x3A, 0xA, 0x2D, 0x20, 0x22, 0x68, 0x69, 0x22, 0x20,
     0x5D7, 0x5D9, 0x5D9, 0x5D1, 0x20, 0x5DC, 0x5D4, 0x5D9, 0x5D5, 0x5EA, 0x20, 0x5D1,
     0x5D3, 0x5D9, 0x5D5, 0x5E7, 0x20, 0x5D4, 0x5DE, 0x5D9, 0x5DC, 0x5D4, 0x20, 0x5DB,
     0x5E4, 0x5D9, 0x20, 0x5E9, 0x5DE, 0x5D5, 0x5E4, 0x5D9, 0x5E2, 0x5D4, 0x20, 0x5D1,
     0x5E8, 0x5E9, 0x5D9, 0x5DE, 0x5D4, 0x20, 0x5E9, 0x5D0, 0x5E0, 0x5D9, 0x20, 0x5E0,
     0x5D5, 0x5EA, 0x5E0, 0x5EA, 0x20, 0x5DC, 0x5DA, 0x2E, 0xA, 0x2D, 0x20, 0x22, 0x68,
     0x65, 0x22, 0x20, 0x5D7, 0x5D9, 0x5D9, 0x5D1, 0x20, 0x5DC, 0x5D4, 0x5D9, 0x5D5,
     0x5EA, 0x20, 0x5D1, 0x5E2, 0x5D1, 0x5E8, 0x5D9, 0x5EA, 0x20, 0x5D1, 0x5DC, 0x5D1,
     0x5D3, 0x20, 0x28, 0x5D0, 0x5D5, 0x5EA, 0x5D9, 0x5D5, 0x5EA, 0x20, 0x5E2, 0x5D1,
     0x5E8, 0x5D9, 0x5D5, 0x5EA, 0x29, 0x2E, 0x20, 0x5D0, 0x5E1, 0x5D5, 0x5E8, 0x20,
     0x5D0, 0x5E0, 0x5D2, 0x5DC, 0x5D9, 0x5EA, 0x2E, 0xA, 0x2D, 0x20, 0x22, 0x68, 0x65,
     0x22, 0x20, 0x5EA, 0x5E8, 0x5D2, 0x5D5, 0x5DD, 0x20, 0x5E7, 0x5E6, 0x5E8, 0x20,
     0x28, 0x5DE, 0x5D9, 0x5DC, 0x5D4, 0x20, 0x5D0, 0x5D7, 0x5EA, 0x20, 0x5D0, 0x5D5,
     0x20, 0x5E2, 0x5D3, 0x20, 0x33, 0x20, 0x5DE, 0x5D9, 0x5DC, 0x5D9, 0x5DD, 0x29,
     0x2E, 0xA, 0x2D, 0x20, 0x5D0, 0x5DD, 0x20, 0x5D6, 0x5D5, 0x20, 0x5DE, 0x5D9, 0x5DC,
     0x5EA, 0x20, 0x5D9, 0x5D7, 0x5E1, 0x2F, 0x5D7, 0x5D9, 0x5D1, 0x5D5, 0x5E8, 0x2F,
     0x5DB, 0x5D9, 0x5E0, 0x5D5, 0x5D9, 0x20, 0x5D5, 0x5DB, 0x5D5, 0x27, 0x20, 0x5E9,
     0x5D0, 0x5D9, 0x5DF, 0x20, 0x5DC, 0x5D4, 0x20, 0x5EA, 0x5E8, 0x5D2, 0x5D5, 0x5DD,
     0x20, 0x5E2, 0x5E6, 0x5DE, 0x5D0, 0x5D9, 0x2C, 0x20, 0x5EA, 0x5DF, 0x20, 0x5DE,
     0x5E9, 0x5DE, 0x5E2, 0x5D5, 0x5EA, 0x20, 0x5E7, 0x5E6, 0x5E8, 0x5D4, 0x20, 0x5D1,
     0x5E2, 0x5D1, 0x5E8, 0x5D9, 0x5EA, 0x2E, 0xA, 0x2D, 0x20, 0x5D0, 0x5DC, 0x20,
     0x5EA, 0x5D5, 0x5E1, 0x5D9, 0x5E3, 0x20, 0x5E9, 0x5D5, 0x5DD, 0x20, 0x5D8, 0x5E7,
     0x5E1, 0x5D8, 0x20, 0x5DE, 0x5E2, 0x5D1, 0x5E8, 0x20, 0x5DC, 0x2D, 0x4A, 0x53,
     0x4F, 0x4E, 0x2E, 0x20, 0x5D1, 0x5DC, 0x5D9, 0x20, 0x5D4, 0x5E1, 0x5D1, 0x5E8,
     0x5D9, 0x5DD, 0x2E, 0x20, 0x5D1, 0x5DC, 0x5D9, 0x20, 0x4D, 0x61, 0x72, 0x6B, 0x64,
     0x6F, 0x77, 0x6E, 0x2E, 0xA, 0xA, 0x5E8, 0x5E9, 0x5D9, 0x5DE, 0x5EA, 0x20, 0x5D4,
     0x5DE, 0x5D9, 0x5DC, 0x5D9, 0x5DD, 0x20, 0x28, 0x5D1, 0x5E1, 0x5D3, 0x5E8, 0x20,
     0x5D4, 0x5D6, 0x5D4, 0x2C, 0x20, 0x5D1, 0x5D3, 0x5D9, 0x5D5, 0x5E7, 0x29, 0x3A,
     0xA]"

text \<open>Line 240: the words numbered from 1, one to a line.\<close>

definition numbered :: "jsstr list \<Rightarrow> jsstr list" where
  "numbered ws = map (\<lambda>(i, w). nat_digits (i + 1) @ lit ''. '' @ w) (enumerate 0 ws)"

definition wordmap_prompt :: "jsstr list \<Rightarrow> jsstr" where
  "wordmap_prompt ws = trim (wordmap_prompt_head @ join_js (numbered ws) [0x0A] @ [0x0A])"

text \<open>
  Lines 251 to 259: the completion is parsed as it is; when that throws, the text from
  the first \<^verbatim>\<open>{\<close> to the last \<^verbatim>\<open>}\<close> is parsed, if there is such a pair.
\<close>

definition parse_completion :: "(jsstr \<Rightarrow> jsval option) \<Rightarrow> jsstr \<Rightarrow> exn + jsval" where
  "parse_completion parse raw =
     (case parse raw of
        Some parsed \<Rightarrow> Inr parsed
      | None \<Rightarrow>
          let start = indexOf raw 0x7B;
              end = lastIndexOf raw 0x7D
          in if start \<ge> 0 \<and> end > start
             then (case parse (slice raw start (end + 1)) of
                     Some parsed \<Rightarrow> Inr parsed
                   | None \<Rightarrow> Inl SyntaxError)
             else Inl (Error (lit ''Failed to parse JSON from model'')))"

text \<open>Line 261: \<^verbatim>\<open>Array.isArray(parsed?.words) ? parsed.words : []\<close>\<close>

definition out_words :: "jsval \<Rightarrow> jsval list" where
  "out_words parsed =
     (case (if parsed = Undefined \<or> parsed = Null then Undefined else own parsed (lit ''words'')) of
        Arr xs \<Rightarrow> xs
      | _ \<Rightarrow> [])"

text \<open>Lines 264 to 267: the gloss taken from the entry \<open>item\<close>.\<close>

definition gloss :: "(rat \<Rightarrow> jsstr) \<Rightarrow> jsval \<Rightarrow> exn + jsstr" where
  "gloss fmt item =
     and_then
       (if truthy item \<and> truthy (own item (lit ''he''))
        then ToString fmt (own item (lit ''he''))
        else Inr [])
       (\<lambda>he. Inr (if \<not> hasHebrew he then [] else he))"

text \<open>Line 264, \<^verbatim>\<open>out[idx]\<close>: \<^verbatim>\<open>undefined\<close> beyond the end of the array.\<close>

definition item_at :: "jsval list \<Rightarrow> nat \<Rightarrow> jsval" where
  "item_at out idx = (if idx < length out then out ! idx else Undefined)"

text \<open>
  Lines 263 to 269: \<^verbatim>\<open>words.map((w, idx) => ...)\<close>, from the index \<open>idx\<close> on; the first
  conversion that throws ends the loop.
\<close>

fun normalized :: "(rat \<Rightarrow> jsstr) \<Rightarrow> jsval list \<Rightarrow> jsstr list \<Rightarrow> nat \<Rightarrow> exn + jsval list" where
  "normalized fmt out [] idx = Inr []"
| "normalized fmt out (w # ws) idx =
     and_then (gloss fmt (item_at out idx)) (\<lambda>he.
     and_then (normalized fmt out ws (Suc idx)) (\<lambda>rest.
       Inr (Obj [(lit ''hi'', Str w), (lit ''he'', Str he)] # rest)))"

text \<open>Lines 249 to 271 on the completion, for the word list \<open>ws\<close>.\<close>

definition wordmap_result :: "env \<Rightarrow> jsstr list \<Rightarrow> jsval \<Rightarrow> exn + jsval list" where
  "wordmap_result E ws completion =
     and_then (message_content completion) (\<lambda>content.
       case js_or content (Str []) of
         Str s \<Rightarrow>
           and_then (parse_completion (JSON_parse E) (trim s)) (\<lambda>parsed.
             normalized (number_format E) (out_words parsed) ws 0)
       | _ \<Rightarrow> Inl TypeError)"

definition wordmap_handler :: "env \<Rightarrow> jsval \<Rightarrow> result" where
  "wordmap_handler E body =
     (let b = js_or body (Obj []);
          sentence = own b (lit ''sentence'')
      in if \<not> truthy sentence
         then \<lparr>response = Responded (Json 400 (error_body (lit ''Missing sentence''))),
               outbound = []\<rparr>
         else (case ToString (number_format E) sentence of
                 Inl e \<Rightarrow> \<lparr>response = Unhandled e, outbound = []\<rparr>
               | Inr s \<Rightarrow>
                   let ws = split_words s
                   in if length ws = 0
                      then \<lparr>response = Responded (Json 200 (Obj [(lit ''words'', Arr [])])),
                            outbound = []\<rparr>
                      else
                        let prompt = wordmap_prompt ws
                        in \<lparr>response =
                               Responded
                                 (case and_then (chat_completions_create E prompt)
                                         (wordmap_result E ws) of
                                    Inl e \<Rightarrow> Failure 500 (lit ''Wordmap error'') e
                                  | Inr entries \<Rightarrow>
                                      Json 200 (Obj [(lit ''words'', Arr entries)])),
                             outbound = [ChatCompletion model_name prompt]\<rparr>))"

section \<open>The specification's notions\<close>

text \<open>
  The specification's \<open>clamp(x, lo, hi)\<close>, on the numbers that are not \<^verbatim>\<open>NaN\<close>:
  the nearest value in the interval from \<open>lo\<close> to \<open>hi\<close>.
\<close>

definition spec_clamp :: "rat \<Rightarrow> rat \<Rightarrow> jsnum \<Rightarrow> jsnum" where
  "spec_clamp lo hi n =
     (case n of
        NaN \<Rightarrow> NaN
      | NegInf \<Rightarrow> Fin lo
      | Fin x \<Rightarrow> Fin (max lo (min hi x))
      | PosInf \<Rightarrow> Fin hi)"

text \<open>
  Escaping the five characters reserved in XML, character by character: what the
  specification says of \<^verbatim>\<open>escapeXml\<close>, which the source does in five passes.
\<close>

definition escape_char :: "code_unit \<Rightarrow> jsstr" where
  "escape_char c =
     (if c = 0x26 then lit ''&amp;''
      else if c = 0x3C then lit ''&lt;''
      else if c = 0x3E then lit ''&gt;''
      else if c = 0x22 then lit ''&quot;''
      else if c = 0x27 then lit ''&apos;''
      else [c])"

section \<open>Clamping and defaults\<close>

lemma max_min_spec_clamp:
  assumes "n \<noteq> NaN" and "lo \<le> hi"
  shows "Math_max (Fin lo) (Math_min (Fin hi) n) = spec_clamp lo hi n"
proof (cases n)
  case NaN
  with assms show ?thesis by simp
next
  case NegInf
  then show ?thesis by (simp add: Math_max_def Math_min_def spec_clamp_def)
next
  case (Fin x)
  then show ?thesis
    by (auto simp add: Math_max_def Math_min_def spec_clamp_def max_def min_def)
next
  case PosInf
  with assms show ?thesis by (auto simp add: Math_max_def Math_min_def spec_clamp_def)
qed

lemma max_min_NaN: "Math_max a (Math_min b NaN) = NaN"
  by (simp add: Math_max_def Math_min_def)

lemma js_or_truthy: "truthy v \<Longrightarrow> js_or v d = v"
  by (simp add: js_or_def)

lemma js_or_falsy: "\<not> truthy v \<Longrightarrow> js_or v d = d"
  by (simp add: js_or_def)

lemma num_le_Fin: "num_le (Fin a) (Fin b) \<longleftrightarrow> a \<le> b"
  by (simp add: num_le_def not_less)

lemma spec_clamp_range:
  assumes "n \<noteq> NaN" and "lo \<le> hi"
  shows "\<exists>c. spec_clamp lo hi n = Fin c \<and> lo \<le> c \<and> c \<le> hi"
  using assms by (cases n) (auto simp add: spec_clamp_def)

section \<open>Rounding to a double\<close>

text \<open>
  The value of a numeric string is computed in two steps: the grammar gives the rational
  that the literal denotes (\<open>StringToNumber_eval\<close>), which is then rounded
  (\<open>RoundToDouble_eval\<close>).
\<close>

lemma floor_rat_numeral: "\<lfloor>numeral a / numeral b :: rat\<rfloor> = numeral a div numeral b"
  using floor_divide_of_int_eq [of "numeral a" "numeral b", where ?'a = rat] by simp

lemma ceiling_rat_numeral: "\<lceil>numeral a / numeral b :: rat\<rceil> = - (- numeral a div numeral b)"
  using ceiling_divide_eq_div [of "numeral a" "numeral b"] by simp

lemmas RoundToDouble_eval =
  RoundToDouble_def round_to_def quantum_def ilog2_def pow2_def round_half_even_def
  bit_length.simps Let_def floor_rat_numeral ceiling_rat_numeral

lemmas StringToNumber_eval =
  StringToNumber_def lit_def trim_def is_ws_def NonDecimalIntegerLiteral_def
  StrDecimalLiteral_def StrUnsignedDecimalLiteral_def is_digit_def is_hex_def
  ExponentPart_def scale10_def radix_value_def hex_val_def negate_def

text \<open>A number with \<open>k + 1\<close> binary digits is at least \<open>2 ^ k\<close>.\<close>

lemma bit_length_gt: "2 ^ k \<le> n \<Longrightarrow> k < bit_length n"
proof (induction k arbitrary: n)
  case 0
  then show ?case by (subst bit_length.simps) simp
next
  case (Suc k)
  from Suc.prems have "2 ^ k \<le> n div 2" by simp
  then have "k < bit_length (n div 2)" by (rule Suc.IH)
  moreover have "n \<noteq> 0"
  proof
    assume "n = 0"
    with Suc.prems show False by simp
  qed
  ultimately show ?case by (subst bit_length.simps) simp
qed

lemma round_half_even_small:
  assumes "0 \<le> x" and "x \<le> 1 / 2"
  shows "round_half_even x = 0"
proof -
  have fl: "\<lfloor>x\<rfloor> = 0" using assms by (intro floor_unique) auto
  show ?thesis using assms by (simp add: round_half_even_def Let_def fl)
qed

lemma quantum_subnormal:
  assumes "0 < a" and "a * 2 ^ 1075 \<le> 1"
  shows "quantum a = - 1074"
proof -
  have a1: "a < 1"
  proof -
    have "a * 1 < a * 2 ^ 1075" using assms(1) by (intro mult_strict_left_mono) auto
    then show ?thesis using assms(2) by simp
  qed
  have "2 ^ 1075 \<le> 1 / a" using assms by (simp add: field_simps)
  also have "\<dots> \<le> of_int \<lceil>1 / a\<rceil>" by (rule le_of_int_ceiling)
  finally have "(of_int (2 ^ 1075) :: rat) \<le> of_int \<lceil>1 / a\<rceil>" by simp
  then have "(2 ^ 1075 :: int) \<le> \<lceil>1 / a\<rceil>" by (simp only: of_int_le_iff)
  then have "int (2 ^ 1074) \<le> \<lceil>1 / a\<rceil> - 1" by simp
  then have "(2 ^ 1074 :: nat) \<le> nat (\<lceil>1 / a\<rceil> - 1)" by (simp only: le_nat_iff [symmetric] nat_int)
  then have "1074 < bit_length (nat (\<lceil>1 / a\<rceil> - 1))" by (rule bit_length_gt)
  then show ?thesis using a1 by (simp add: quantum_def ilog2_def)
qed

lemma RoundToDouble_underflow:
  assumes "\<bar>q\<bar> * 2 ^ 1075 \<le> 1"
  shows "RoundToDouble q = Fin 0"
proof (cases "q = 0")
  case True
  then show ?thesis by (simp add: RoundToDouble_def)
next
  case False
  then have pos: "0 < \<bar>q\<bar>" by simp
  have qu: "quantum \<bar>q\<bar> = - 1074" using pos assms by (rule quantum_subnormal)
  have x: "\<bar>q\<bar> / pow2 (- 1074) = \<bar>q\<bar> * 2 ^ 1074" by (simp add: pow2_def)
  have le: "\<bar>q\<bar> * 2 ^ 1074 \<le> 1 / 2" using assms by simp
  have "round_half_even (\<bar>q\<bar> * 2 ^ 1074) = 0"
    using le by (intro round_half_even_small) auto
  then have "round_to (- 1074) \<bar>q\<bar> = 0" by (simp only: round_to_def x of_int_0 mult_zero_left)
  then show ?thesis using False by (simp add: RoundToDouble_def qu pow2_def)
qed

text \<open>
  Three strings whose value is no double. The first two round to a whole number, the
  third is below half of the least positive double and becomes 0.
\<close>

lemma Number_rounds_to_80: "ToNumber (Str (lit ''80.000000000000001'')) = Inr (Fin 80)"
  by (simp add: StringToNumber_eval, simp add: RoundToDouble_eval)

lemma Number_rounds_to_2: "ToNumber (Str (lit ''2.0000000000000000001'')) = Inr (Fin 2)"
  by (simp add: StringToNumber_eval, simp add: RoundToDouble_eval)

lemma Number_underflows: "ToNumber (Str (lit ''1e-400'')) = Inr (Fin 0)"
proof -
  have "StringToNumber (lit ''1e-400'') = RoundToDouble (1 / 10 ^ 400)"
    by (simp add: StringToNumber_eval)
  also have "\<dots> = Fin 0" by (rule RoundToDouble_underflow) simp
  finally show ?thesis by simp
qed

section \<open>The page size of the news handler\<close>

lemma news_count_truthy:
  assumes "truthy count" and "ToNumber count = Inr n" and "n \<noteq> NaN"
  shows "news_count count = Inr (spec_clamp 1 20 n)"
  using assms by (simp add: news_count_def js_or_truthy max_min_spec_clamp)

lemma news_count_falsy:
  assumes "\<not> truthy count"
  shows "news_count count = Inr (Fin 3)"
  using assms by (simp add: news_count_def js_or_falsy Math_max_def Math_min_def)

text \<open>
  C2, as stated, fails: a count that is no number, such as \<^verbatim>\<open>?count=abc\<close>, is a
  non-empty string and therefore truthy, so the default is not taken; its numeric value
  is \<^verbatim>\<open>NaN\<close>, which \<^verbatim>\<open>Math.min\<close> and \<^verbatim>\<open>Math.max\<close> pass on. The page size is then
  \<^verbatim>\<open>NaN\<close> and not 3.
\<close>

theorem news_count_non_numeric:
  "news_count (Str (lit ''abc'')) = Inr NaN \<and> news_count (Str (lit ''abc'')) \<noteq> Inr (Fin 3)"
  by (simp add: news_count_def js_or_def StringToNumber_eval Math_max_def Math_min_def)

text \<open>
  C2, amended: for every count that is given (truthy) and whose numeric value \<open>n\<close> is a
  number, the page size is \<open>n\<close> clamped to the interval from 1 to 20; a count that is
  missing or empty (falsy) gives the default 3.
\<close>

theorem news_count_clamped:
  "(truthy count \<and> ToNumber count = Inr n \<and> n \<noteq> NaN \<longrightarrow>
      news_count count = Inr (spec_clamp 1 20 n))
   \<and> (\<not> truthy count \<longrightarrow> news_count count = Inr (Fin 3))"
  using news_count_truthy news_count_falsy by blast

theorem news_count_clamped_witness:
  "truthy (Str (lit ''50'')) \<and> ToNumber (Str (lit ''50'')) = Inr (Fin 50) \<and> Fin 50 \<noteq> NaN
   \<and> news_count (Str (lit ''50'')) = Inr (Fin 20)
   \<and> truthy (Str (lit ''2.0000000000000000001''))
   \<and> ToNumber (Str (lit ''2.0000000000000000001'')) = Inr (Fin 2)
   \<and> news_count (Str (lit ''2.0000000000000000001'')) = Inr (Fin 2)
   \<and> \<not> truthy Undefined \<and> news_count Undefined = Inr (Fin 3)"
proof -
  have t: "truthy (Str (lit ''50''))" by (simp add: lit_def)
  have n: "ToNumber (Str (lit ''50'')) = Inr (Fin 50)"
    by (simp add: StringToNumber_eval, simp add: RoundToDouble_eval)
  have "news_count (Str (lit ''50'')) = Inr (spec_clamp 1 20 (Fin 50))"
    using news_count_clamped [of "Str (lit ''50'')" "Fin 50"] t n by simp
  then have a: "news_count (Str (lit ''50'')) = Inr (Fin 20)" by (simp add: spec_clamp_def)
  have t2: "truthy (Str (lit ''2.0000000000000000001''))" by (simp add: lit_def)
  have "news_count (Str (lit ''2.0000000000000000001'')) = Inr (spec_clamp 1 20 (Fin 2))"
    using news_count_clamped [of "Str (lit ''2.0000000000000000001'')" "Fin 2"] t2
      Number_rounds_to_2 by simp
  then have b: "news_count (Str (lit ''2.0000000000000000001'')) = Inr (Fin 2)"
    by (simp add: spec_clamp_def)
  have c: "news_count Undefined = Inr (Fin 3)"
    using news_count_clamped [of Undefined] by simp
  show ?thesis using t n a t2 Number_rounds_to_2 b c by simp
qed

section \<open>The prosody tier\<close>

lemma effective_rate_truthy:
  assumes "truthy rate" and "ToNumber rate = Inr n" and "n \<noteq> NaN"
  shows "effective_rate rate = Inr (spec_clamp 60 140 n)"
  using assms by (simp add: effective_rate_def js_or_truthy max_min_spec_clamp)

lemma effective_rate_falsy:
  assumes "\<not> truthy rate"
  shows "effective_rate rate = Inr (Fin 100)"
  using assms by (simp add: effective_rate_def js_or_falsy Math_max_def Math_min_def)

lemma tier_of_effective_rate:
  assumes "effective_rate rate = Inr (Fin c)"
  shows "ratePercentToSsmlRate rate =
           Inr (if c \<le> 80 then lit ''x-slow''
                else if c \<le> 95 then lit ''slow''
                else if c \<le> 110 then lit ''medium''
                else if c \<le> 125 then lit ''fast''
                else lit ''x-fast'')"
  using assms by (simp add: ratePercentToSsmlRate_def num_le_Fin)

lemma tier_of_number:
  assumes "x \<noteq> 0"
  shows "ratePercentToSsmlRate (Num (Fin x)) =
           Inr (if x \<le> 80 then lit ''x-slow''
                else if x \<le> 95 then lit ''slow''
                else if x \<le> 110 then lit ''medium''
                else if x \<le> 125 then lit ''fast''
                else lit ''x-fast'')"
proof -
  have "effective_rate (Num (Fin x)) = Inr (Fin (max 60 (min 140 x)))"
    using assms effective_rate_truthy [of "Num (Fin x)" "Fin x"] by (simp add: spec_clamp_def)
  from tier_of_effective_rate [OF this] show ?thesis by (auto simp add: max_def min_def)
qed

lemma tier_clamped:
  assumes "truthy rate" and "ToNumber rate = Inr n" and "n \<noteq> NaN"
  shows "\<exists>c. spec_clamp 60 140 n = Fin c \<and> effective_rate rate = Inr (Fin c) \<and>
           ratePercentToSsmlRate rate =
             Inr (if c \<le> 80 then lit ''x-slow''
                  else if c \<le> 95 then lit ''slow''
                  else if c \<le> 110 then lit ''medium''
                  else if c \<le> 125 then lit ''fast''
                  else lit ''x-fast'')"
proof -
  from spec_clamp_range [OF assms(3), of 60 140]
  obtain c where c: "spec_clamp 60 140 n = Fin c" by auto
  with effective_rate_truthy [OF assms] have "effective_rate rate = Inr (Fin c)" by simp
  with c tier_of_effective_rate show ?thesis by blast
qed

text \<open>
  C3, as stated, fails at the rate 0: it is falsy, so \<^verbatim>\<open>ratePercent || 100\<close> replaces
  it by 100 before the clamp. The effective rate is 100 and the tier \<^verbatim>\<open>medium\<close>, where
  the clamp of 0 would be 60 with the tier \<^verbatim>\<open>x-slow\<close>.
\<close>

theorem rate_zero_not_clamped:
  "effective_rate (Num (Fin 0)) = Inr (Fin 100)
   \<and> spec_clamp 60 140 (Fin 0) = Fin 60
   \<and> ratePercentToSsmlRate (Num (Fin 0)) = Inr (lit ''medium'')"
  by (simp add: effective_rate_falsy tier_of_effective_rate spec_clamp_def)

text \<open>
  C3, amended: for every rate that is truthy (so not 0) and whose numeric value \<open>n\<close> is
  a number, the effective rate is \<open>n\<close> clamped to the interval from 60 to 140, and the
  tier follows from the clamped value \<open>c\<close> by the thresholds: \<open>c \<le> 80\<close> gives
  \<^verbatim>\<open>x-slow\<close>, \<open>c \<le> 95\<close> gives \<^verbatim>\<open>slow\<close>, \<open>c \<le> 110\<close> gives \<^verbatim>\<open>medium\<close>, \<open>c \<le> 125\<close> gives
  \<^verbatim>\<open>fast\<close>, anything above gives \<^verbatim>\<open>x-fast\<close>. In particular 100 gives \<^verbatim>\<open>medium\<close>, 80
  \<^verbatim>\<open>x-slow\<close>, 81 and 95 \<^verbatim>\<open>slow\<close>, 96 and 110 \<^verbatim>\<open>medium\<close>, 111 and 125 \<^verbatim>\<open>fast\<close>, and 126
  \<^verbatim>\<open>x-fast\<close>.
\<close>

theorem rate_tier_thresholds:
  "(truthy rate \<and> ToNumber rate = Inr n \<and> n \<noteq> NaN \<longrightarrow>
      (\<exists>c. spec_clamp 60 140 n = Fin c \<and> effective_rate rate = Inr (Fin c) \<and>
         ratePercentToSsmlRate rate =
           Inr (if c \<le> 80 then lit ''x-slow''
                else if c \<le> 95 then lit ''slow''
                else if c \<le> 110 then lit ''medium''
                else if c \<le> 125 then lit ''fast''
                else lit ''x-fast'')))
   \<and> ratePercentToSsmlRate (Num (Fin 100)) = Inr (lit ''medium'')
   \<and> ratePercentToSsmlRate (Num (Fin 80)) = Inr (lit ''x-slow'')
   \<and> ratePercentToSsmlRate (Num (Fin 81)) = Inr (lit ''slow'')
   \<and> ratePercentToSsmlRate (Num (Fin 95)) = Inr (lit ''slow'')
   \<and> ratePercentToSsmlRate (Num (Fin 96)) = Inr (lit ''medium'')
   \<and> ratePercentToSsmlRate (Num (Fin 110)) = Inr (lit ''medium'')
   \<and> ratePercentToSsmlRate (Num (Fin 111)) = Inr (lit ''fast'')
   \<and> ratePercentToSsmlRate (Num (Fin 125)) = Inr (lit ''fast'')
   \<and> ratePercentToSsmlRate (Num (Fin 126)) = Inr (lit ''x-fast'')"
proof -
  have "truthy rate \<and> ToNumber rate = Inr n \<and> n \<noteq> NaN \<longrightarrow>
      (\<exists>c. spec_clamp 60 140 n = Fin c \<and> effective_rate rate = Inr (Fin c) \<and>
         ratePercentToSsmlRate rate =
           Inr (if c \<le> 80 then lit ''x-slow''
                else if c \<le> 95 then lit ''slow''
                else if c \<le> 110 then lit ''medium''
                else if c \<le> 125 then lit ''fast''
                else lit ''x-fast''))"
    using tier_clamped by blast
  then show ?thesis by (simp add: tier_of_number)
qed

theorem rate_tier_thresholds_witness:
  "truthy (Num (Fin 90)) \<and> ToNumber (Num (Fin 90)) = Inr (Fin 90) \<and> Fin 90 \<noteq> NaN
   \<and> spec_clamp 60 140 (Fin 90) = Fin 90
   \<and> effective_rate (Num (Fin 90)) = Inr (Fin 90)
   \<and> ratePercentToSsmlRate (Num (Fin 90)) = Inr (lit ''slow'')
   \<and> truthy (Str (lit ''80.000000000000001''))
   \<and> ToNumber (Str (lit ''80.000000000000001'')) = Inr (Fin 80)
   \<and> effective_rate (Str (lit ''80.000000000000001'')) = Inr (Fin 80)
   \<and> ratePercentToSsmlRate (Str (lit ''80.000000000000001'')) = Inr (lit ''x-slow'')"
proof -
  have t: "truthy (Str (lit ''80.000000000000001''))" by (simp add: lit_def)
  have "\<exists>c. spec_clamp 60 140 (Fin 80) = Fin c \<and>
         effective_rate (Str (lit ''80.000000000000001'')) = Inr (Fin c) \<and>
         ratePercentToSsmlRate (Str (lit ''80.000000000000001'')) =
           Inr (if c \<le> 80 then lit ''x-slow''
                else if c \<le> 95 then lit ''slow''
                else if c \<le> 110 then lit ''medium''
                else if c \<le> 125 then lit ''fast''
                else lit ''x-fast'')"
    using rate_tier_thresholds [of "Str (lit ''80.000000000000001'')" "Fin 80"] t
      Number_rounds_to_80 by simp
  then have s: "effective_rate (Str (lit ''80.000000000000001'')) = Inr (Fin 80)
      \<and> ratePercentToSsmlRate (Str (lit ''80.000000000000001'')) = Inr (lit ''x-slow'')"
    by (auto simp add: spec_clamp_def)
  have "\<exists>c. spec_clamp 60 140 (Fin 90) = Fin c \<and> effective_rate (Num (Fin 90)) = Inr (Fin c) \<and>
         ratePercentToSsmlRate (Num (Fin 90)) =
           Inr (if c \<le> 80 then lit ''x-slow''
                else if c \<le> 95 then lit ''slow''
                else if c \<le> 110 then lit ''medium''
                else if c \<le> 125 then lit ''fast''
                else lit ''x-fast'')"
    using rate_tier_thresholds [of "Num (Fin 90)" "Fin 90"] by simp
  then show ?thesis using t s Number_rounds_to_80 by (auto simp add: spec_clamp_def)
qed

section \<open>Conversions and strings\<close>

lemma ToString_succeeds:
  "(\<exists>s. ToString fmt v = Inr s) \<longleftrightarrow> \<not> conversion_throws v"
  "(\<exists>ss. ToString_elements fmt xs = Inr ss) \<longleftrightarrow> \<not> list_ex conversion_throws xs"
  by (induction fmt v and fmt xs rule: ToString_ToString_elements.induct)
    (auto split: sum.splits)

lemma ToString_error:
  "ToString fmt v = Inl e \<Longrightarrow> e = TypeError"
  "ToString_elements fmt xs = Inl e \<Longrightarrow> e = TypeError"
  by (induction fmt v and fmt xs rule: ToString_ToString_elements.induct)
    (auto split: sum.splits if_splits)

lemma falsy_number:
  assumes "\<not> truthy v" and "ToNumber v = Inr n" and "n \<noteq> NaN"
  shows "n = Fin 0"
  using assms by (cases v) (auto simp add: StringToNumber_def trim_def)

lemma safePause_falsy:
  assumes "\<not> truthy pauseMs"
  shows "safePause pauseMs = Inr (Fin 0)"
  using assms by (simp add: safePause_def js_or_falsy Math_max_def Math_min_def)

lemma safePause_number:
  assumes "ToNumber pauseMs = Inr n" and "n \<noteq> NaN"
  shows "safePause pauseMs = Inr (spec_clamp 0 2000 n)"
proof (cases "truthy pauseMs")
  case True
  with assms show ?thesis by (simp add: safePause_def js_or_truthy max_min_spec_clamp)
next
  case False
  from falsy_number [OF False assms] have "n = Fin 0" .
  with False show ?thesis by (simp add: safePause_falsy spec_clamp_def)
qed

lemma safePause_range:
  assumes "safePause pauseMs = Inr (Fin p)"
  shows "0 \<le> p \<and> p \<le> 2000"
proof -
  from assms obtain n where n: "ToNumber (js_or pauseMs (Num (Fin 0))) = Inr n"
    and p: "Math_max (Fin 0) (Math_min (Fin 2000) n) = Fin p"
    by (auto simp add: safePause_def split: sum.splits)
  from p have "n \<noteq> NaN" by (auto simp add: Math_max_def Math_min_def)
  with p have "spec_clamp 0 2000 n = Fin p" by (simp add: max_min_spec_clamp)
  with spec_clamp_range [OF \<open>n \<noteq> NaN\<close>, of 0 2000] show ?thesis by auto
qed

lemma join_js_Cons: "join_js (w # ws) sep = w @ concat (map (\<lambda>x. sep @ x) ws)"
  by (induction ws arbitrary: w) simp_all

lemma buildHindiSsml_ok:
  assumes "ratePercentToSsmlRate rate = Inr tag" and "safePause pauseMs = Inr sp"
    and "ToString fmt text = Inr s"
  shows "buildHindiSsml fmt text rate pauseMs = Inr (ssml_document tag (ssml_body fmt s sp))"
  using assms by (simp add: buildHindiSsml_def and_then_def)

lemma trim_eq_Nil: "trim s = [] \<longleftrightarrow> (\<forall>c\<in>set s. is_ws c)"
proof -
  have "trim s = [] \<longleftrightarrow> (\<forall>c\<in>set (dropWhile is_ws s). is_ws c)"
    by (simp add: trim_def dropWhile_eq_Nil_conv)
  also have "\<dots> \<longleftrightarrow> dropWhile is_ws s = []"
  proof
    assume a: "\<forall>c\<in>set (dropWhile is_ws s). is_ws c"
    show "dropWhile is_ws s = []"
    proof (rule ccontr)
      assume "dropWhile is_ws s \<noteq> []"
      then have "\<not> is_ws (hd (dropWhile is_ws s))" and "hd (dropWhile is_ws s) \<in> set (dropWhile is_ws s)"
        by (simp_all add: hd_dropWhile)
      with a show False by blast
    qed
  next
    assume d: "dropWhile is_ws s = []"
    show "\<forall>c\<in>set (dropWhile is_ws s). is_ws c" unfolding d by simp
  qed
  also have "\<dots> \<longleftrightarrow> (\<forall>c\<in>set s. is_ws c)"
    by (simp add: dropWhile_eq_Nil_conv)
  finally show ?thesis .
qed

lemma script_not_ws:
  assumes "(0x0590 \<le> c \<and> c \<le> 0x05FF) \<or> (0x0900 \<le> c \<and> c \<le> 0x097F)"
  shows "\<not> is_ws c"
  using assms by (auto simp add: is_ws_def word_le_nat_alt)

lemma split_ws_not_Nil: "split_ws s \<noteq> []"
  by (induction s rule: split_ws.induct) (auto split: list.splits)

lemma filter_dropWhile_not: "filter (\<lambda>c. \<not> P c) (dropWhile P xs) = filter (\<lambda>c. \<not> P c) xs"
  by (induction xs) simp_all

lemma concat_split_ws: "concat (split_ws s) = filter (\<lambda>c. \<not> is_ws c) s"
proof (induction s rule: split_ws.induct)
  case 1
  show ?case by simp
next
  case (2 c cs)
  show ?case
  proof (cases "is_ws c")
    case True
    with 2 show ?thesis by (simp add: filter_dropWhile_not)
  next
    case False
    with 2 split_ws_not_Nil [of cs] show ?thesis by (auto split: list.splits)
  qed
qed

lemma split_ws_no_ws: "\<forall>w\<in>set (split_ws s). \<forall>c\<in>set w. \<not> is_ws c"
proof (induction s rule: split_ws.induct)
  case 1
  show ?case by simp
next
  case (2 d ds)
  show ?case
  proof (cases "is_ws d")
    case True
    with 2 show ?thesis by simp
  next
    case False
    obtain v vs where v: "split_ws ds = v # vs"
      using split_ws_not_Nil [of ds] by (cases "split_ws ds") auto
    with 2 False have "\<forall>w\<in>set (v # vs). \<forall>c\<in>set w. \<not> is_ws c" by simp
    with False v show ?thesis by auto
  qed
qed

lemma filter_trim: "filter (\<lambda>c. \<not> is_ws c) (trim s) = filter (\<lambda>c. \<not> is_ws c) s"
  by (simp add: trim_def rev_filter [symmetric] filter_dropWhile_not)

lemma concat_filter_not_Nil: "concat (filter (\<lambda>w. w \<noteq> []) xs) = concat xs"
  by (induction xs) simp_all

lemma split_words_chars: "concat (split_words s) = filter (\<lambda>c. \<not> is_ws c) s"
  by (simp add: split_words_def concat_filter_not_Nil concat_split_ws filter_trim)

lemma split_words_word:
  assumes "w \<in> set (split_words s)"
  shows "w \<noteq> [] \<and> (\<forall>c\<in>set w. \<not> is_ws c)"
  using assms split_ws_no_ws [of "trim s"] by (auto simp add: split_words_def)

lemma replaceAll_concat_map:
  "replaceAll c rep (concat (map f s)) = concat (map (\<lambda>x. replaceAll c rep (f x)) s)"
  by (induction s) (simp_all add: replaceAll_def)

lemma escapeXml_single_pass: "escapeXml s = concat (map escape_char s)"
proof -
  have 1: "replaceAll 0x26 (lit ''&amp;'') s = concat (map (\<lambda>c. if c = 0x26 then lit ''&amp;'' else [c]) s)"
    by (simp add: replaceAll_def)
  have 2: "replaceAll 0x3C (lit ''&lt;'') (replaceAll 0x26 (lit ''&amp;'') s) =
      concat (map (\<lambda>c. if c = 0x26 then lit ''&amp;'' else if c = 0x3C then lit ''&lt;'' else [c]) s)"
    unfolding 1 replaceAll_concat_map
    by (rule arg_cong [where f = concat], rule map_cong) (auto simp add: replaceAll_def lit_def)
  have 3: "replaceAll 0x3E (lit ''&gt;'') (replaceAll 0x3C (lit ''&lt;'') (replaceAll 0x26 (lit ''&amp;'') s)) =
      concat (map (\<lambda>c. if c = 0x26 then lit ''&amp;'' else if c = 0x3C then lit ''&lt;''
        else if c = 0x3E then lit ''&gt;'' else [c]) s)"
    unfolding 2 replaceAll_concat_map
    by (rule arg_cong [where f = concat], rule map_cong) (auto simp add: replaceAll_def lit_def)
  have 4: "replaceAll 0x22 (lit ''&quot;'') (replaceAll 0x3E (lit ''&gt;'') (replaceAll 0x3C (lit ''&lt;'') (replaceAll 0x26 (lit ''&amp;'') s))) =
      concat (map (\<lambda>c. if c = 0x26 then lit ''&amp;'' else if c = 0x3C then lit ''&lt;''
        else if c = 0x3E then lit ''&gt;'' else if c = 0x22 then lit ''&quot;'' else [c]) s)"
    unfolding 3 replaceAll_concat_map
    by (rule arg_cong [where f = concat], rule map_cong) (auto simp add: replaceAll_def lit_def)
  show ?thesis
    unfolding escapeXml_def 4 replaceAll_concat_map
    by (rule arg_cong [where f = concat], rule map_cong) (auto simp add: replaceAll_def lit_def escape_char_def)
qed

lemma script_line_trim:
  assumes "hasHebrew l \<or> hasDeva l"
  shows "trim l \<noteq> []"
proof -
  from assms obtain c where "c \<in> set l" and "\<not> is_ws c"
    using script_not_ws by (auto simp add: hasHebrew_def hasDeva_def list_ex_iff)
  then show ?thesis by (auto simp add: trim_eq_Nil)
qed

lemma filter_map_lines:
  "filter (\<lambda>l. l \<noteq> []) (map (\<lambda>line. if \<not> hasHebrew line \<and> \<not> hasDeva line then [] else trim line) ls)
   = map trim (filter (\<lambda>l. hasHebrew l \<or> hasDeva l) ls)"
  by (induction ls) (auto simp add: script_line_trim)

lemma filter_lines_kept:
  "filter_lines text = join_js (map trim (filter (\<lambda>l. hasHebrew l \<or> hasDeva l) (split_on 0x0A text))) [0x0A]"
  by (simp add: filter_lines_def filter_map_lines)

lemma split_on_not_Nil: "split_on c s \<noteq> []"
  by (induction s) (auto split: list.splits)

lemma split_on_line: "l \<in> set (split_on c s) \<Longrightarrow> c \<notin> set l"
proof (induction s arbitrary: l)
  case Nil
  then show ?case by simp
next
  case (Cons x xs)
  with split_on_not_Nil [of c xs] show ?case by (auto split: list.splits if_splits)
qed

lemma split_on_absent: "c \<notin> set x \<Longrightarrow> split_on c x = [x]"
  by (induction x) auto

lemma split_on_append: "c \<notin> set x \<Longrightarrow> split_on c (x @ c # r) = x # split_on c r"
  by (induction x) auto

lemma split_on_join:
  assumes "ls \<noteq> []" and "\<forall>l\<in>set ls. c \<notin> set l"
  shows "split_on c (join_js ls [c]) = ls"
  using assms
proof (induction ls "[c]" rule: join_js.induct)
  case 1
  then show ?case by simp
next
  case (2 x)
  then show ?case by (simp add: split_on_absent)
next
  case (3 x y ys)
  then show ?case by (simp add: split_on_append)
qed

lemma set_trim: "set (trim s) \<subseteq> set s"
proof -
  have "set (trim s) \<subseteq> set (dropWhile is_ws s)"
    unfolding trim_def set_rev using set_dropWhileD by fastforce
  also have "\<dots> \<subseteq> set s" using set_dropWhileD by fastforce
  finally show ?thesis .
qed

lemma filter_lines_lines:
  assumes "filter (\<lambda>l. hasHebrew l \<or> hasDeva l) (split_on 0x0A text) \<noteq> []"
  shows "split_on 0x0A (filter_lines text) =
           map trim (filter (\<lambda>l. hasHebrew l \<or> hasDeva l) (split_on 0x0A text))"
  unfolding filter_lines_kept
proof (rule split_on_join)
  show "map trim (filter (\<lambda>l. hasHebrew l \<or> hasDeva l) (split_on 0x0A text)) \<noteq> []"
    using assms by simp
  show "\<forall>l\<in>set (map trim (filter (\<lambda>l. hasHebrew l \<or> hasDeva l) (split_on 0x0A text))). 0x0A \<notin> set l"
    using split_on_line set_trim by fastforce
qed

section \<open>Splitting into words\<close>

lemma split_ws_clean_prefix:
  assumes "\<forall>c\<in>set w. \<not> is_ws c"
  shows "split_ws (w @ r) = (w @ hd (split_ws r)) # tl (split_ws r)"
  using assms
proof (induction w)
  case Nil
  then show ?case using split_ws_not_Nil [of r] by simp
next
  case (Cons c w)
  then have "split_ws (w @ r) = (w @ hd (split_ws r)) # tl (split_ws r)" by simp
  with Cons.prems show ?case by simp
qed

lemma dropWhile_id: "xs = [] \<or> \<not> P (hd xs) \<Longrightarrow> dropWhile P xs = xs"
  by (cases xs) auto

lemma split_ws_gap:
  assumes "sep \<noteq> []" and "\<forall>c\<in>set sep. is_ws c" and "r = [] \<or> \<not> is_ws (hd r)"
  shows "split_ws (sep @ r) = [] # split_ws r"
proof -
  from assms(1) obtain c cs where sep: "sep = c # cs" by (cases sep) auto
  with assms(2) have c: "is_ws c" and "\<forall>x\<in>set cs. is_ws x" by simp_all
  then have "dropWhile is_ws (cs @ r) = dropWhile is_ws r"
    by (simp add: dropWhile_append2)
  also have "\<dots> = r" using assms(3) by (rule dropWhile_id)
  finally show ?thesis using sep c by simp
qed

lemma join_js_starts:
  assumes "w \<noteq> []"
  shows "join_js (w # ws) sep \<noteq> [] \<and> hd (join_js (w # ws) sep) = hd w"
  using assms by (cases ws) simp_all

lemma join_js_ends:
  assumes "\<forall>w\<in>set (w # ws). w \<noteq> []"
  shows "last (join_js (w # ws) sep) = last (last (w # ws))"
  using assms
proof (induction ws arbitrary: w)
  case Nil
  then show ?case by simp
next
  case (Cons y ys)
  then have "join_js (y # ys) sep \<noteq> []" using join_js_starts [of y ys sep] by simp
  with Cons show ?case by simp
qed

lemma split_ws_join:
  assumes "\<forall>w\<in>set (w # ws). w \<noteq> [] \<and> (\<forall>c\<in>set w. \<not> is_ws c)"
    and "sep \<noteq> []" and "\<forall>c\<in>set sep. is_ws c"
  shows "split_ws (join_js (w # ws) sep) = w # ws"
  using assms(1)
proof (induction ws arbitrary: w)
  case Nil
  then show ?case using split_ws_clean_prefix [of w "[]"] by simp
next
  case (Cons y ys)
  let ?J = "join_js (y # ys) sep"
  from Cons have ih: "split_ws ?J = y # ys" by simp
  from Cons.prems have y: "y \<noteq> []" "\<not> is_ws (hd y)" by (cases y; simp)+
  with join_js_starts [of y ys sep] have "?J = [] \<or> \<not> is_ws (hd ?J)" by simp
  from split_ws_gap [OF assms(2,3) this] ih have "split_ws (sep @ ?J) = [] # y # ys" by simp
  moreover from Cons.prems have "\<forall>c\<in>set w. \<not> is_ws c" by simp
  ultimately show ?case using split_ws_clean_prefix [of w "sep @ ?J"] by simp
qed

lemma trim_clean:
  assumes "s \<noteq> []" and "\<not> is_ws (hd s)" and "\<not> is_ws (last s)"
  shows "trim s = s"
proof -
  have "dropWhile is_ws s = s" using assms(1,2) by (simp add: dropWhile_id)
  moreover have "dropWhile is_ws (rev s) = rev s"
    using assms(1,3) by (simp add: dropWhile_id hd_rev)
  ultimately show ?thesis by (simp add: trim_def)
qed

lemma split_words_join:
  assumes "\<forall>w\<in>set ws. w \<noteq> [] \<and> (\<forall>c\<in>set w. \<not> is_ws c)"
    and "sep \<noteq> []" and "\<forall>c\<in>set sep. is_ws c"
  shows "split_words (join_js ws sep) = ws"
proof (cases ws)
  case Nil
  then show ?thesis by (simp add: split_words_def trim_def)
next
  case (Cons w vs)
  let ?J = "join_js (w # vs) sep"
  from assms(1) Cons have clean: "\<forall>w\<in>set (w # vs). w \<noteq> [] \<and> (\<forall>c\<in>set w. \<not> is_ws c)"
    by simp
  then have w: "w \<noteq> []" "\<not> is_ws (hd w)" by (cases w; simp)+
  have "last (w # vs) \<noteq> [] \<and> \<not> is_ws (last (last (w # vs)))"
    using clean last_in_set [of "w # vs"] last_in_set [of "last (w # vs)"] by blast
  moreover have "last ?J = last (last (w # vs))"
    using clean join_js_ends [of w vs sep] by simp
  ultimately have "trim ?J = ?J"
    using trim_clean [of ?J] join_js_starts [OF w(1), of vs sep] w(2) by simp
  moreover have "split_ws ?J = w # vs" using split_ws_join [OF clean assms(2,3)] .
  moreover have "filter (\<lambda>w. w \<noteq> []) (w # vs) = w # vs" using clean by (simp add: filter_id_conv)
  ultimately show ?thesis using Cons by (simp add: split_words_def)
qed

section \<open>The pause between words\<close>

lemma joiner_cases:
  assumes "0 \<le> p"
  shows "joiner fmt (Fin p) = (if p = 0 then lit '' '' else break_marker fmt (Fin p))"
  using assms by (auto simp add: joiner_def)

lemma NumberToString_nat:
  assumes "k < 2 ^ 53"
  shows "NumberToString fmt (Fin (of_nat k)) = nat_digits k"
proof -
  have "(of_nat k :: rat) < 2 ^ 53"
    using assms by (metis of_nat_less_iff of_nat_numeral of_nat_power)
  then show ?thesis by (simp add: NumberToString_def)
qed

lemma break_marker_nat:
  assumes "k \<le> 2000"
  shows \<open>break_marker fmt (Fin (of_nat k)) = lit ''<break time="'' @ nat_digits k @ lit ''ms"/>''\<close>
  using assms by (simp add: break_marker_def NumberToString_nat)

lemma escapeXml_eq: "escapeXml = (\<lambda>w. concat (map escape_char w))"
  by (rule ext) (rule escapeXml_single_pass)

lemma ssml_for_pause:
  assumes "ratePercentToSsmlRate rate = Inr tag" and "ToString fmt text = Inr s"
    and "safePause pauseMs = Inr (Fin p)"
  shows "buildHindiSsml fmt text rate pauseMs =
           Inr (ssml_document tag
                  (join_js (map (\<lambda>w. concat (map escape_char w)) (split_words s))
                     (if p = 0 then lit '' '' else break_marker fmt (Fin p))))"
proof -
  from safePause_range [OF assms(3)] have "0 \<le> p" by simp
  then show ?thesis
    using buildHindiSsml_ok [OF assms(1) assms(3) assms(2)]
    by (simp add: ssml_body_def joiner_cases escapeXml_eq)
qed

text \<open>
  C4, as stated, fails, because it speaks of every pauseMs. A pauseMs that is no
  number, such as \<^verbatim>\<open>"abc"\<close>, is truthy and has the numeric value \<^verbatim>\<open>NaN\<close>, which
  \<^verbatim>\<open>Math.min\<close> and \<^verbatim>\<open>Math.max\<close> pass on: the effective pause is \<^verbatim>\<open>NaN\<close>, no number
  between 0 and 2000. A pauseMs that cannot be converted, such as the JSON object
  \<^verbatim>\<open>{"toString": 1}\<close>, makes \<^verbatim>\<open>Number\<close> throw a \<^verbatim>\<open>TypeError\<close> on line 151; the call of
  \<^verbatim>\<open>buildHindiSsml\<close> on line 172 stands before the \<^verbatim>\<open>try\<close> of line 174, so there is no
  effective pause and the handler sends no reply.
\<close>

theorem pause_not_a_number:
  "safePause (Str (lit ''abc'')) = Inr NaN
   \<and> \<not> (\<exists>c. safePause (Str (lit ''abc'')) = Inr (Fin c))
   \<and> safePause (Obj [(lit ''toString'', Num (Fin 1))]) = Inl TypeError
   \<and> (\<forall>E. response
              (speak_handler E
                 (Obj [(lit ''text'', Str (lit ''a'')),
                       (lit ''pauseMs'', Obj [(lit ''toString'', Num (Fin 1))])])) =
            Unhandled TypeError)"
proof -
  have a: "safePause (Str (lit ''abc'')) = Inr NaN"
    by (simp add: safePause_def js_or_def StringToNumber_eval Math_max_def Math_min_def)
  have t: "has_own [(lit ''toString'', Num (Fin 1))] (lit ''toString'')"
    by (simp add: has_own_def)
  have b: "safePause (Obj [(lit ''toString'', Num (Fin 1))]) = Inl TypeError"
    using t by (simp add: safePause_def js_or_def)
  have r: "ratePercentToSsmlRate (Num (Fin 100)) = Inr (lit ''medium'')"
    by (simp add: tier_of_number)
  have "response
          (speak_handler E
             (Obj [(lit ''text'', Str (lit ''a'')),
                   (lit ''pauseMs'', Obj [(lit ''toString'', Num (Fin 1))])])) =
        Unhandled TypeError" for E
    using b r
    by (simp add: speak_handler_def buildHindiSsml_def and_then_def js_or_def
        defaulted_def lit_def Let_def)
  then show ?thesis using a b by simp
qed

text \<open>
  C4, amended: for every pauseMs whose conversion to a number succeeds and gives a
  number \<open>n\<close> (not \<^verbatim>\<open>NaN\<close>), the effective pause is \<open>n\<close> clamped to the interval from 0
  to 2000, and for a falsy pauseMs it is 0. The text is split at white space, each
  word is escaped, and the words are joined: with one space when the effective pause
  \<open>p\<close> is 0, and otherwise with the break marker that carries \<open>p\<close> in milliseconds
  (for a whole number its decimal digits). Joining puts the joiner before every word
  but the first, that is between every two adjacent words. The words are the stretches
  of the text without white space: none is empty, together they hold the characters of
  the text that are not white space, and words joined by white space are split again
  into the same words.
\<close>

theorem pause_clamped_and_joined:
  \<open>(ToNumber pauseMs = Inr n \<and> n \<noteq> NaN \<longrightarrow> safePause pauseMs = Inr (spec_clamp 0 2000 n))
   \<and> (ratePercentToSsmlRate rate = Inr tag \<and> ToString fmt text = Inr s \<and>
        safePause pauseMs = Inr (Fin p) \<longrightarrow>
        0 \<le> p \<and> p \<le> 2000 \<and>
        buildHindiSsml fmt text rate pauseMs =
          Inr (ssml_document tag
                 (join_js (map (\<lambda>w. concat (map escape_char w)) (split_words s))
                    (if p = 0 then lit '' '' else break_marker fmt (Fin p)))))
   \<and> break_marker fmt (Fin p) = lit ''<break time="'' @ NumberToString fmt (Fin p) @ lit ''ms"/>''
   \<and> (k \<le> 2000 \<longrightarrow>
        break_marker fmt (Fin (of_nat k)) = lit ''<break time="'' @ nat_digits k @ lit ''ms"/>'')
   \<and> join_js (w # ws) sep = w @ concat (map (\<lambda>x. sep @ x) ws)
   \<and> concat (split_words s) = filter (\<lambda>c. \<not> is_ws c) s
   \<and> (\<forall>v\<in>set (split_words s). v \<noteq> [] \<and> (\<forall>c\<in>set v. \<not> is_ws c))
   \<and> ((\<forall>v\<in>set vs. v \<noteq> [] \<and> (\<forall>c\<in>set v. \<not> is_ws c)) \<and>
        gap \<noteq> [] \<and> (\<forall>c\<in>set gap. is_ws c) \<longrightarrow>
        split_words (join_js vs gap) = vs)
   \<and> (\<not> truthy pauseMs \<longrightarrow> safePause pauseMs = Inr (Fin 0))\<close>
proof -
  have a: "ToNumber pauseMs = Inr n \<and> n \<noteq> NaN \<longrightarrow>
      safePause pauseMs = Inr (spec_clamp 0 2000 n)"
    using safePause_number by blast
  have b: "ratePercentToSsmlRate rate = Inr tag \<and> ToString fmt text = Inr s \<and>
        safePause pauseMs = Inr (Fin p) \<longrightarrow>
        0 \<le> p \<and> p \<le> 2000 \<and>
        buildHindiSsml fmt text rate pauseMs =
          Inr (ssml_document tag
                 (join_js (map (\<lambda>w. concat (map escape_char w)) (split_words s))
                    (if p = 0 then lit '' '' else break_marker fmt (Fin p))))"
    using safePause_range ssml_for_pause by blast
  have c: "(\<forall>v\<in>set vs. v \<noteq> [] \<and> (\<forall>c\<in>set v. \<not> is_ws c)) \<and>
        gap \<noteq> [] \<and> (\<forall>c\<in>set gap. is_ws c) \<longrightarrow>
        split_words (join_js vs gap) = vs"
    using split_words_join by blast
  have d: "\<forall>v\<in>set (split_words s). v \<noteq> [] \<and> (\<forall>c\<in>set v. \<not> is_ws c)"
    using split_words_word by blast
  show ?thesis
    using a b c d break_marker_nat [of k fmt] join_js_Cons [of w ws sep] split_words_chars [of s]
      safePause_falsy [of pauseMs]
    by (simp add: break_marker_def)
qed

lemmas words_eval =
  split_words_def trim_def is_ws_def lit_def escape_char_def nat_digits.simps join_js_Cons

theorem pause_clamped_and_joined_witness:
  \<open>\<forall>fmt.
     ToNumber (Num (Fin 500)) = Inr (Fin 500) \<and> Fin 500 \<noteq> NaN
     \<and> safePause (Num (Fin 500)) = Inr (Fin 500)
     \<and> ratePercentToSsmlRate (Num (Fin 100)) = Inr (lit ''medium'')
     \<and> ToString fmt (Str (lit ''a <b>  c&d '')) = Inr (lit ''a <b>  c&d '')
     \<and> buildHindiSsml fmt (Str (lit ''a <b>  c&d '')) (Num (Fin 100)) (Num (Fin 500)) =
         Inr (ssml_document (lit ''medium'')
                (lit ''a<break time="500ms"/>&lt;b&gt;<break time="500ms"/>c&amp;d''))
     \<and> split_words (join_js [lit ''a'', lit ''<b>'', lit ''c&d''] [0x20, 0x09]) =
         [lit ''a'', lit ''<b>'', lit ''c&d'']
     \<and> ToNumber (Str (lit ''1e-400'')) = Inr (Fin 0)
     \<and> safePause (Str (lit ''1e-400'')) = Inr (Fin 0)
     \<and> safePause Null = Inr (Fin 0)\<close>
proof
  fix fmt
  from pause_clamped_and_joined
    [of "Str (lit ''1e-400'')" "Fin 0" Null "[]" fmt Null "[]" 0 0 "[]" "[]" "[]" "[]" "[]"]
    Number_underflows
  have u: "safePause (Str (lit ''1e-400'')) = Inr (Fin 0)" by (simp add: spec_clamp_def)
  have n: "ToNumber (Num (Fin 500)) = Inr (Fin 500)" by simp
  have r: "ratePercentToSsmlRate (Num (Fin 100)) = Inr (lit ''medium'')"
    by (simp add: tier_of_number)
  have s: "ToString fmt (Str (lit ''a <b>  c&d '')) = Inr (lit ''a <b>  c&d '')" by simp
  note inst = pause_clamped_and_joined
    [of "Num (Fin 500)" "Fin 500" "Num (Fin 100)" "lit ''medium''" fmt
        "Str (lit ''a <b>  c&d '')" "lit ''a <b>  c&d ''" 500 500 "[]" "[]" "[]"
        "[lit ''a'', lit ''<b>'', lit ''c&d'']" "[0x20, 0x09]"]
  from inst n have p: "safePause (Num (Fin 500)) = Inr (Fin 500)"
    by (simp add: spec_clamp_def)
  from inst have \<open>(500::nat) \<le> 2000 \<longrightarrow>
      break_marker fmt (Fin (of_nat 500)) = lit ''<break time="'' @ nat_digits 500 @ lit ''ms"/>''\<close>
    by (elim conjE)
  then have d: \<open>break_marker fmt (Fin 500) = lit ''<break time="500ms"/>''\<close>
    by (simp add: nat_digits.simps lit_def)
  from inst have "(\<forall>v\<in>set [lit ''a'', lit ''<b>'', lit ''c&d''].
        v \<noteq> [] \<and> (\<forall>c\<in>set v. \<not> is_ws c)) \<and>
      [0x20, 0x09] \<noteq> ([] :: jsstr) \<and> (\<forall>c\<in>set [0x20, 0x09]. is_ws c) \<longrightarrow>
      split_words (join_js [lit ''a'', lit ''<b>'', lit ''c&d''] [0x20, 0x09]) =
        [lit ''a'', lit ''<b>'', lit ''c&d'']"
    by (elim conjE)
  then have j: "split_words (join_js [lit ''a'', lit ''<b>'', lit ''c&d''] [0x20, 0x09]) =
        [lit ''a'', lit ''<b>'', lit ''c&d'']"
    by (simp add: is_ws_def lit_def)
  from pause_clamped_and_joined [of Null NaN Null "[]" fmt Null "[]" 0 0 "[]" "[]" "[]" "[]" "[]"]
  have z: "safePause Null = Inr (Fin 0)" by simp
  from inst r s p have "buildHindiSsml fmt (Str (lit ''a <b>  c&d '')) (Num (Fin 100)) (Num (Fin 500)) =
      Inr (ssml_document (lit ''medium'')
             (join_js (map (\<lambda>w. concat (map escape_char w)) (split_words (lit ''a <b>  c&d '')))
                (break_marker fmt (Fin 500))))"
    by simp
  also have \<open>join_js (map (\<lambda>w. concat (map escape_char w)) (split_words (lit ''a <b>  c&d '')))
                (break_marker fmt (Fin 500))
             = lit ''a<break time="500ms"/>&lt;b&gt;<break time="500ms"/>c&amp;d''\<close>
    unfolding d by (simp add: words_eval)
  finally show \<open>ToNumber (Num (Fin 500)) = Inr (Fin 500) \<and> Fin 500 \<noteq> NaN
     \<and> safePause (Num (Fin 500)) = Inr (Fin 500)
     \<and> ratePercentToSsmlRate (Num (Fin 100)) = Inr (lit ''medium'')
     \<and> ToString fmt (Str (lit ''a <b>  c&d '')) = Inr (lit ''a <b>  c&d '')
     \<and> buildHindiSsml fmt (Str (lit ''a <b>  c&d '')) (Num (Fin 100)) (Num (Fin 500)) =
         Inr (ssml_document (lit ''medium'')
                (lit ''a<break time="500ms"/>&lt;b&gt;<break time="500ms"/>c&amp;d''))
     \<and> split_words (join_js [lit ''a'', lit ''<b>'', lit ''c&d''] [0x20, 0x09]) =
         [lit ''a'', lit ''<b>'', lit ''c&d'']
     \<and> ToNumber (Str (lit ''1e-400'')) = Inr (Fin 0)
     \<and> safePause (Str (lit ''1e-400'')) = Inr (Fin 0)
     \<and> safePause Null = Inr (Fin 0)\<close>
    using n r s p j z u Number_underflows by simp
qed

section \<open>Falsy rates and pauses\<close>

lemma tier_falsy:
  assumes "\<not> truthy rate"
  shows "ratePercentToSsmlRate rate = Inr (lit ''medium'')"
  using tier_of_effective_rate [OF effective_rate_falsy [OF assms]] by simp

lemma defaulted_falsy:
  assumes "\<not> truthy v" and "\<not> truthy d"
  shows "\<not> truthy (defaulted v d)"
  using assms by (simp add: defaulted_def)

lemma tier_defaulted_falsy:
  assumes "\<not> truthy v"
  shows "ratePercentToSsmlRate (defaulted v (Num (Fin 100))) = Inr (lit ''medium'')"
proof (cases "v = Undefined")
  case True
  then show ?thesis by (simp add: defaulted_def tier_of_number)
next
  case False
  with assms show ?thesis by (simp add: defaulted_def tier_falsy)
qed

lemma ssml_falsy_pause:
  assumes "\<not> truthy pauseMs" and "ratePercentToSsmlRate rate = Inr tag"
    and "ToString fmt text = Inr s"
  shows "buildHindiSsml fmt text rate pauseMs =
           Inr (ssml_document tag (join_js (map escapeXml (split_words s)) (lit '' '')))"
  using buildHindiSsml_ok [OF assms(2) safePause_falsy [OF assms(1)] assms(3)]
  by (simp add: ssml_body_def joiner_def)

lemma speak_completed:
  assumes "truthy (own (js_or body (Obj [])) (lit ''text''))"
    and "buildHindiSsml (number_format E) (own (js_or body (Obj [])) (lit ''text''))
           (defaulted (own (js_or body (Obj [])) (lit ''rate'')) (Num (Fin 100)))
           (defaulted (own (js_or body (Obj [])) (lit ''pauseMs'')) (Num (Fin 0))) = Inr ssml"
    and "speakSsmlAsync E ssml = Completed audio"
  shows "speak_handler E body =
           \<lparr>response = Responded (Audio audio), outbound = [Synthesis ssml]\<rparr>"
  using assms by (simp add: speak_handler_def Let_def)

text \<open>
  C9: a falsy rate (0, \<^verbatim>\<open>null\<close>, \<^verbatim>\<open>undefined\<close>, the empty string, \<^verbatim>\<open>NaN\<close>) is replaced
  by 100 before the clamp, so the effective rate is 100 and the tier \<^verbatim>\<open>medium\<close>; in
  particular the rate 0 gives \<^verbatim>\<open>medium\<close> and not \<^verbatim>\<open>x-slow\<close>. A falsy pauseMs gives the
  pause 0, and the words are joined with one space. The same holds for the values the
  speak handler passes on after its destructuring defaults.
\<close>

theorem falsy_rate_and_pause:
  "(\<not> truthy rate \<longrightarrow>
      effective_rate rate = Inr (Fin 100) \<and>
      ratePercentToSsmlRate rate = Inr (lit ''medium'') \<and>
      ratePercentToSsmlRate (defaulted rate (Num (Fin 100))) = Inr (lit ''medium''))
   \<and> \<not> truthy (Num (Fin 0)) \<and> \<not> truthy Null \<and> \<not> truthy Undefined \<and> \<not> truthy (Str [])
   \<and> \<not> truthy (Num NaN)
   \<and> ratePercentToSsmlRate (Num (Fin 0)) = Inr (lit ''medium'')
   \<and> ratePercentToSsmlRate (Num (Fin 0)) \<noteq> Inr (lit ''x-slow'')
   \<and> (\<not> truthy pauseMs \<longrightarrow>
        safePause pauseMs = Inr (Fin 0) \<and>
        safePause (defaulted pauseMs (Num (Fin 0))) = Inr (Fin 0) \<and>
        joiner fmt (Fin 0) = lit '' '' \<and>
        (ratePercentToSsmlRate r = Inr tag \<and> ToString fmt text = Inr s \<longrightarrow>
           buildHindiSsml fmt text r pauseMs =
             Inr (ssml_document tag (join_js (map escapeXml (split_words s)) (lit '' '')))))"
proof -
  have a: "\<not> truthy rate \<longrightarrow>
      effective_rate rate = Inr (Fin 100) \<and>
      ratePercentToSsmlRate rate = Inr (lit ''medium'') \<and>
      ratePercentToSsmlRate (defaulted rate (Num (Fin 100))) = Inr (lit ''medium'')"
    using effective_rate_falsy tier_falsy tier_defaulted_falsy by blast
  have z: "ratePercentToSsmlRate (Num (Fin 0)) = Inr (lit ''medium'')"
    by (simp add: tier_falsy)
  have b: "\<not> truthy pauseMs \<longrightarrow>
        safePause pauseMs = Inr (Fin 0) \<and>
        safePause (defaulted pauseMs (Num (Fin 0))) = Inr (Fin 0) \<and>
        joiner fmt (Fin 0) = lit '' '' \<and>
        (ratePercentToSsmlRate r = Inr tag \<and> ToString fmt text = Inr s \<longrightarrow>
           buildHindiSsml fmt text r pauseMs =
             Inr (ssml_document tag (join_js (map escapeXml (split_words s)) (lit '' ''))))"
    using safePause_falsy ssml_falsy_pause defaulted_falsy [of pauseMs "Num (Fin 0)"]
    by (simp add: joiner_def)
  from a z b show ?thesis by (simp add: lit_def)
qed

theorem falsy_rate_and_pause_witness:
  "\<forall>fmt.
     \<not> truthy Null
     \<and> effective_rate Null = Inr (Fin 100)
     \<and> ratePercentToSsmlRate Null = Inr (lit ''medium'')
     \<and> \<not> truthy (Str [])
     \<and> safePause (Str []) = Inr (Fin 0)
     \<and> ToString fmt (Str (lit ''ab  c'')) = Inr (lit ''ab  c'')
     \<and> buildHindiSsml fmt (Str (lit ''ab  c'')) Null (Str []) =
         Inr (ssml_document (lit ''medium'') (lit ''ab c''))"
proof
  fix fmt
  note inst = falsy_rate_and_pause
    [of Null "Str []" fmt Null "lit ''medium''" "Str (lit ''ab  c'')" "lit ''ab  c''"]
  have s: "ToString fmt (Str (lit ''ab  c'')) = Inr (lit ''ab  c'')" by simp
  from inst have r: "effective_rate Null = Inr (Fin 100)"
    "ratePercentToSsmlRate Null = Inr (lit ''medium'')"
    "safePause (Str []) = Inr (Fin 0)"
    by simp_all
  with inst s have "buildHindiSsml fmt (Str (lit ''ab  c'')) Null (Str []) =
      Inr (ssml_document (lit ''medium'')
             (join_js (map escapeXml (split_words (lit ''ab  c''))) (lit '' '')))"
    by simp
  also have "join_js (map escapeXml (split_words (lit ''ab  c''))) (lit '' '') = lit ''ab c''"
    by (simp add: escapeXml_eq words_eval)
  finally show "\<not> truthy Null
     \<and> effective_rate Null = Inr (Fin 100)
     \<and> ratePercentToSsmlRate Null = Inr (lit ''medium'')
     \<and> \<not> truthy (Str [])
     \<and> safePause (Str []) = Inr (Fin 0)
     \<and> ToString fmt (Str (lit ''ab  c'')) = Inr (lit ''ab  c'')
     \<and> buildHindiSsml fmt (Str (lit ''ab  c'')) Null (Str []) =
         Inr (ssml_document (lit ''medium'') (lit ''ab c''))"
    using r s by simp
qed

section \<open>Missing and falsy inputs\<close>

lemma summarize_falsy_text:
  assumes "\<not> truthy (own (js_or body (Obj [])) (lit ''text''))"
  shows "summarize_handler E body =
           \<lparr>response = Responded (Json 400 (error_body (lit ''Missing text''))), outbound = []\<rparr>"
  using assms by (simp add: summarize_handler_def Let_def)

lemma speak_falsy_text:
  assumes "\<not> truthy (own (js_or body (Obj [])) (lit ''text''))"
  shows "speak_handler E body =
           \<lparr>response = Responded (Json 400 (error_body (lit ''Missing text''))), outbound = []\<rparr>"
  using assms by (simp add: speak_handler_def Let_def)

lemma wordmap_falsy_sentence:
  assumes "\<not> truthy (own (js_or body (Obj [])) (lit ''sentence''))"
  shows "wordmap_handler E body =
           \<lparr>response = Responded (Json 400 (error_body (lit ''Missing sentence''))),
            outbound = []\<rparr>"
  using assms by (simp add: wordmap_handler_def Let_def)

text \<open>
  C6: a request whose body has no \<^verbatim>\<open>text\<close> (for summarize and speak) or no \<^verbatim>\<open>sentence\<close>
  (for the word map), which includes a request without a body, is answered with status
  400 and the one-field body \<^verbatim>\<open>{ error: "Missing text" }\<close> or
  \<^verbatim>\<open>{ error: "Missing sentence" }\<close>, and no outbound call is made.
\<close>

theorem missing_input_400:
  "(own (js_or body (Obj [])) (lit ''text'') = Undefined \<longrightarrow>
      summarize_handler E body =
        \<lparr>response = Responded (Json 400 (Obj [(lit ''error'', Str (lit ''Missing text''))])),
         outbound = []\<rparr>
      \<and> speak_handler E body =
        \<lparr>response = Responded (Json 400 (Obj [(lit ''error'', Str (lit ''Missing text''))])),
         outbound = []\<rparr>)
   \<and> (own (js_or body (Obj [])) (lit ''sentence'') = Undefined \<longrightarrow>
      wordmap_handler E body =
        \<lparr>response = Responded (Json 400 (Obj [(lit ''error'', Str (lit ''Missing sentence''))])),
         outbound = []\<rparr>)"
  using summarize_falsy_text [of body E] speak_falsy_text [of body E]
    wordmap_falsy_sentence [of body E]
  by (simp add: error_body_def)

theorem missing_input_400_witness:
  "\<forall>E.
     own (js_or (Obj [(lit ''level'', Str (lit ''beginner''))]) (Obj [])) (lit ''text'') = Undefined
     \<and> summarize_handler E (Obj [(lit ''level'', Str (lit ''beginner''))]) =
         \<lparr>response = Responded (Json 400 (Obj [(lit ''error'', Str (lit ''Missing text''))])),
          outbound = []\<rparr>
     \<and> speak_handler E (Obj [(lit ''level'', Str (lit ''beginner''))]) =
         \<lparr>response = Responded (Json 400 (Obj [(lit ''error'', Str (lit ''Missing text''))])),
          outbound = []\<rparr>
     \<and> own (js_or Undefined (Obj [])) (lit ''sentence'') = Undefined
     \<and> wordmap_handler E Undefined =
         \<lparr>response = Responded (Json 400 (Obj [(lit ''error'', Str (lit ''Missing sentence''))])),
          outbound = []\<rparr>"
proof
  fix E
  have a: "own (js_or (Obj [(lit ''level'', Str (lit ''beginner''))]) (Obj [])) (lit ''text'')
      = Undefined"
    by (simp add: js_or_def lit_def)
  have b: "own (js_or Undefined (Obj [])) (lit ''sentence'') = Undefined"
    by (simp add: js_or_def)
  from a b missing_input_400 [of "Obj [(lit ''level'', Str (lit ''beginner''))]" E]
    missing_input_400 [of Undefined E]
  show "own (js_or (Obj [(lit ''level'', Str (lit ''beginner''))]) (Obj [])) (lit ''text'') = Undefined
     \<and> summarize_handler E (Obj [(lit ''level'', Str (lit ''beginner''))]) =
         \<lparr>response = Responded (Json 400 (Obj [(lit ''error'', Str (lit ''Missing text''))])),
          outbound = []\<rparr>
     \<and> speak_handler E (Obj [(lit ''level'', Str (lit ''beginner''))]) =
         \<lparr>response = Responded (Json 400 (Obj [(lit ''error'', Str (lit ''Missing text''))])),
          outbound = []\<rparr>
     \<and> own (js_or Undefined (Obj [])) (lit ''sentence'') = Undefined
     \<and> wordmap_handler E Undefined =
         \<lparr>response = Responded (Json 400 (Obj [(lit ''error'', Str (lit ''Missing sentence''))])),
          outbound = []\<rparr>"
    by blast
qed

text \<open>
  C10: the three checks test falsiness. A \<^verbatim>\<open>text\<close> or \<^verbatim>\<open>sentence\<close> that is the empty
  string, 0, \<^verbatim>\<open>false\<close> or \<^verbatim>\<open>null\<close> is falsy, and every falsy value is answered like an
  absent field: with the same 400 reply as the request with the empty body, and without an
  outbound call.
\<close>

theorem falsy_input_400:
  "\<not> truthy (Str []) \<and> \<not> truthy (Num (Fin 0)) \<and> \<not> truthy (Bool False) \<and> \<not> truthy Null
   \<and> (\<not> truthy (own (js_or body (Obj [])) (lit ''text'')) \<longrightarrow>
        summarize_handler E body = summarize_handler E (Obj []) \<and>
        speak_handler E body = speak_handler E (Obj []) \<and>
        response (summarize_handler E body) =
          Responded (Json 400 (Obj [(lit ''error'', Str (lit ''Missing text''))])) \<and>
        response (speak_handler E body) =
          Responded (Json 400 (Obj [(lit ''error'', Str (lit ''Missing text''))])) \<and>
        outbound (summarize_handler E body) = [] \<and>
        outbound (speak_handler E body) = [])
   \<and> (\<not> truthy (own (js_or body (Obj [])) (lit ''sentence'')) \<longrightarrow>
        wordmap_handler E body = wordmap_handler E (Obj []) \<and>
        response (wordmap_handler E body) =
          Responded (Json 400 (Obj [(lit ''error'', Str (lit ''Missing sentence''))])) \<and>
        outbound (wordmap_handler E body) = [])"
proof -
  have e: "\<not> truthy (own (js_or (Obj []) (Obj [])) k)" for k
    by (simp add: js_or_def)
  show ?thesis
    using summarize_falsy_text [of body E] speak_falsy_text [of body E]
      wordmap_falsy_sentence [of body E]
      summarize_falsy_text [OF e, of E] speak_falsy_text [OF e, of E]
      wordmap_falsy_sentence [OF e, of E]
    by (simp add: error_body_def)
qed

theorem falsy_input_400_witness:
  "\<forall>E.
     \<not> truthy (own (js_or (Obj [(lit ''text'', Str [])]) (Obj [])) (lit ''text''))
     \<and> summarize_handler E (Obj [(lit ''text'', Str [])]) = summarize_handler E (Obj [])
     \<and> response (speak_handler E (Obj [(lit ''text'', Str [])])) =
         Responded (Json 400 (Obj [(lit ''error'', Str (lit ''Missing text''))]))
     \<and> outbound (speak_handler E (Obj [(lit ''text'', Str [])])) = []
     \<and> \<not> truthy (own (js_or (Obj [(lit ''sentence'', Num (Fin 0))]) (Obj [])) (lit ''sentence''))
     \<and> response (wordmap_handler E (Obj [(lit ''sentence'', Num (Fin 0))])) =
         Responded (Json 400 (Obj [(lit ''error'', Str (lit ''Missing sentence''))]))
     \<and> outbound (wordmap_handler E (Obj [(lit ''sentence'', Num (Fin 0))])) = []"
proof
  fix E
  have a: "\<not> truthy (own (js_or (Obj [(lit ''text'', Str [])]) (Obj [])) (lit ''text''))"
    by (simp add: js_or_def)
  have b: "\<not> truthy (own (js_or (Obj [(lit ''sentence'', Num (Fin 0))]) (Obj [])) (lit ''sentence''))"
    by (simp add: js_or_def)
  from a b falsy_input_400 [of "Obj [(lit ''text'', Str [])]" E]
    falsy_input_400 [of "Obj [(lit ''sentence'', Num (Fin 0))]" E]
  show "\<not> truthy (own (js_or (Obj [(lit ''text'', Str [])]) (Obj [])) (lit ''text''))
     \<and> summarize_handler E (Obj [(lit ''text'', Str [])]) = summarize_handler E (Obj [])
     \<and> response (speak_handler E (Obj [(lit ''text'', Str [])])) =
         Responded (Json 400 (Obj [(lit ''error'', Str (lit ''Missing text''))]))
     \<and> outbound (speak_handler E (Obj [(lit ''text'', Str [])])) = []
     \<and> \<not> truthy (own (js_or (Obj [(lit ''sentence'', Num (Fin 0))]) (Obj [])) (lit ''sentence''))
     \<and> response (wordmap_handler E (Obj [(lit ''sentence'', Num (Fin 0))])) =
         Responded (Json 400 (Obj [(lit ''error'', Str (lit ''Missing sentence''))]))
     \<and> outbound (wordmap_handler E (Obj [(lit ''sentence'', Num (Fin 0))])) = []"
    by blast
qed

section \<open>The line filter of the summarize handler\<close>

lemma hasHebrew_iff: "hasHebrew l \<longleftrightarrow> (\<exists>x\<in>set l. 0x0590 \<le> x \<and> x \<le> 0x05FF)"
  by (simp add: hasHebrew_def list_ex_iff)

lemma hasDeva_iff: "hasDeva l \<longleftrightarrow> (\<exists>x\<in>set l. 0x0900 \<le> x \<and> x \<le> 0x097F)"
  by (simp add: hasDeva_def list_ex_iff)

lemma latin_line_dropped:
  assumes "\<forall>x\<in>set l. x \<le> 0x024F"
  shows "\<not> (hasHebrew l \<or> hasDeva l)"
proof
  assume "hasHebrew l \<or> hasDeva l"
  then obtain x where x: "x \<in> set l" and "0x0590 \<le> x \<or> 0x0900 \<le> x"
    by (auto simp add: hasHebrew_iff hasDeva_iff)
  with assms have "x \<le> 0x024F" and "0x0590 \<le> x \<or> 0x0900 \<le> x" by auto
  then show False by (auto simp add: word_le_nat_alt)
qed

lemma filter_lines_nothing_kept:
  assumes "filter (\<lambda>l. hasHebrew l \<or> hasDeva l) (split_on 0x0A c) = []"
  shows "filter_lines c = []"
  using assms by (simp add: filter_lines_kept)

lemma summarize_completed:
  assumes "truthy (own (js_or body (Obj [])) (lit ''text''))"
    and "ToString (number_format E) (own (js_or body (Obj [])) (lit ''text'')) = Inr t"
    and "chat_completions_create E
           (summarize_prompt
              (defaulted (own (js_or body (Obj [])) (lit ''level'')) (Str (lit ''beginner''))) t)
         = Inr completion"
    and "message_content completion = Inr (Str c)"
  shows "summarize_handler E body =
           \<lparr>response = Responded (Json 200 (Obj [(lit ''result'', Str (filter_lines c))])),
            outbound =
              [ChatCompletion model_name
                 (summarize_prompt
                    (defaulted (own (js_or body (Obj [])) (lit ''level'')) (Str (lit ''beginner'')))
                    t)]\<rparr>"
proof -
  have "js_or (Str c) (Str []) = Str c" by (simp add: js_or_def)
  with assms show ?thesis
    by (simp add: summarize_handler_def Let_def and_then_def summarize_result_def)
qed

text \<open>
  C5: the filtered result consists of the lines of the completion text that contain a
  character from U+0590 to U+05FF or from U+0900 to U+097F, each trimmed, joined by line
  feeds; when a line is kept, the lines of the result are exactly the kept lines. A line
  of Latin characters only is not kept. Whatever the filter leaves, also nothing, the
  handler answers with status 200 and the result.
\<close>

theorem summarize_line_filter:
  "filter_lines c =
     join_js (map trim (filter (\<lambda>l. hasHebrew l \<or> hasDeva l) (split_on 0x0A c))) [0x0A]
   \<and> (hasHebrew l \<longleftrightarrow> (\<exists>x\<in>set l. 0x0590 \<le> x \<and> x \<le> 0x05FF))
   \<and> (hasDeva l \<longleftrightarrow> (\<exists>x\<in>set l. 0x0900 \<le> x \<and> x \<le> 0x097F))
   \<and> ((\<forall>x\<in>set l. x \<le> 0x024F) \<longrightarrow> \<not> (hasHebrew l \<or> hasDeva l))
   \<and> (filter (\<lambda>l. hasHebrew l \<or> hasDeva l) (split_on 0x0A c) \<noteq> [] \<longrightarrow>
        split_on 0x0A (filter_lines c) =
          map trim (filter (\<lambda>l. hasHebrew l \<or> hasDeva l) (split_on 0x0A c)))
   \<and> (filter (\<lambda>l. hasHebrew l \<or> hasDeva l) (split_on 0x0A c) = [] \<longrightarrow> filter_lines c = [])
   \<and> (truthy (own (js_or body (Obj [])) (lit ''text'')) \<and>
        ToString (number_format E) (own (js_or body (Obj [])) (lit ''text'')) = Inr t \<and>
        chat_completions_create E
          (summarize_prompt
             (defaulted (own (js_or body (Obj [])) (lit ''level'')) (Str (lit ''beginner''))) t)
          = Inr completion \<and>
        message_content completion = Inr (Str c) \<longrightarrow>
        summarize_handler E body =
          \<lparr>response = Responded (Json 200 (Obj [(lit ''result'', Str (filter_lines c))])),
           outbound =
             [ChatCompletion model_name
                (summarize_prompt
                   (defaulted (own (js_or body (Obj [])) (lit ''level'')) (Str (lit ''beginner'')))
                   t)]\<rparr>)"
  using filter_lines_kept [of c] hasHebrew_iff [of l] hasDeva_iff [of l]
    latin_line_dropped [of l] filter_lines_lines [of c] filter_lines_nothing_kept [of c]
    summarize_completed [of body E t completion c]
  by blast

lemmas handler_eval =
  js_or_def lit_def message_content_def get_prop_def and_then_def defaulted_def

lemmas lines_eval =
  filter_lines_def hasHebrew_def hasDeva_def trim_def is_ws_def lit_def

theorem summarize_line_filter_witness:
  "\<forall>fmt parse speech.
     response
       (summarize_handler
          \<lparr>number_format = fmt, JSON_parse = parse,
           chat_completions_create =
             (\<lambda>prompt. Inr (Obj [(lit ''choices'',
                Arr [Obj [(lit ''message'',
                  Obj [(lit ''content'',
                    Str ([0x20, 0x05D0, 0x0D, 0x0A] @ lit ''hello'' @ [0x0A, 0x0905]))])]])])),
           speakSsmlAsync = speech\<rparr>
          (Obj [(lit ''text'', Str (lit ''news''))]))
       = Responded (Json 200 (Obj [(lit ''result'', Str [0x05D0, 0x0A, 0x0905])]))
     \<and> response
       (summarize_handler
          \<lparr>number_format = fmt, JSON_parse = parse,
           chat_completions_create =
             (\<lambda>prompt. Inr (Obj [(lit ''choices'',
                Arr [Obj [(lit ''message'', Obj [(lit ''content'', Str (lit ''hello''))])]])])),
           speakSsmlAsync = speech\<rparr>
          (Obj [(lit ''text'', Str (lit ''news''))]))
       = Responded (Json 200 (Obj [(lit ''result'', Str [])]))
     \<and> list_all (\<lambda>x. x \<le> 0x024F) (lit ''hello'')
     \<and> \<not> (hasHebrew (lit ''hello'') \<or> hasDeva (lit ''hello''))
     \<and> split_on 0x0A
          (filter_lines ([0x20, 0x05D0, 0x0D, 0x0A] @ lit ''hello'' @ [0x0A, 0x0905]))
         = [[0x05D0], [0x0905]]"
proof (intro allI conjI)
  fix fmt :: "rat \<Rightarrow> jsstr" and parse :: "jsstr \<Rightarrow> jsval option"
    and speech :: "jsstr \<Rightarrow> speech_outcome"
  let ?body = "Obj [(lit ''text'', Str (lit ''news''))]"
  let ?c1 = "[0x20, 0x05D0, 0x0D, 0x0A] @ lit ''hello'' @ [0x0A, 0x0905] :: jsstr"
  let ?k1 = "Obj [(lit ''choices'',
                Arr [Obj [(lit ''message'', Obj [(lit ''content'', Str ?c1)])]])]"
  let ?k2 = "Obj [(lit ''choices'',
                Arr [Obj [(lit ''message'', Obj [(lit ''content'', Str (lit ''hello''))])]])]"
  let ?E1 = "\<lparr>number_format = fmt, JSON_parse = parse,
           chat_completions_create = (\<lambda>prompt. Inr ?k1), speakSsmlAsync = speech\<rparr>"
  let ?E2 = "\<lparr>number_format = fmt, JSON_parse = parse,
           chat_completions_create = (\<lambda>prompt. Inr ?k2), speakSsmlAsync = speech\<rparr>"
  have t: "truthy (own (js_or ?body (Obj [])) (lit ''text''))"
    by (simp add: js_or_def lit_def)
  have s: "ToString fmt (own (js_or ?body (Obj [])) (lit ''text'')) = Inr (lit ''news'')"
    by (simp add: js_or_def)
  have m1: "message_content ?k1 = Inr (Str ?c1)" by (simp add: handler_eval)
  have m2: "message_content ?k2 = Inr (Str (lit ''hello''))" by (simp add: handler_eval)
  from summarize_line_filter [of ?c1 "[]" ?body ?E1 "lit ''news''" ?k1] t s m1
  have "response (summarize_handler ?E1 ?body) =
      Responded (Json 200 (Obj [(lit ''result'', Str (filter_lines ?c1))]))"
    by simp
  moreover have "filter_lines ?c1 = [0x05D0, 0x0A, 0x0905]"
    by (simp add: lines_eval)
  ultimately show "response (summarize_handler ?E1 ?body) =
      Responded (Json 200 (Obj [(lit ''result'', Str [0x05D0, 0x0A, 0x0905])]))"
    by simp
  from summarize_line_filter [of "lit ''hello''" "[]" ?body ?E2 "lit ''news''" ?k2] t s m2
  have "response (summarize_handler ?E2 ?body) =
      Responded (Json 200 (Obj [(lit ''result'', Str (filter_lines (lit ''hello'')))]))"
    by simp
  moreover have "filter_lines (lit ''hello'') = []"
    by (simp add: lines_eval)
  ultimately show "response (summarize_handler ?E2 ?body) =
      Responded (Json 200 (Obj [(lit ''result'', Str [])]))"
    by simp
  show latin: "list_all (\<lambda>x. x \<le> 0x024F) (lit ''hello'')"
    by (simp add: lit_def)
  then have "\<forall>x\<in>set (lit ''hello''). x \<le> 0x024F"
    by (simp add: list_all_iff)
  with summarize_line_filter [of ?c1 "lit ''hello''" ?body ?E1 "lit ''news''" ?k1]
  show "\<not> (hasHebrew (lit ''hello'') \<or> hasDeva (lit ''hello''))"
    by blast
  have kept: "filter (\<lambda>l. hasHebrew l \<or> hasDeva l) (split_on 0x0A ?c1) =
      [[0x20, 0x05D0, 0x0D], [0x0905]]"
    by (simp add: hasHebrew_def hasDeva_def lit_def)
  from summarize_line_filter [of ?c1 "[]" ?body ?E1 "lit ''news''" ?k1]
  have imp: "filter (\<lambda>l. hasHebrew l \<or> hasDeva l) (split_on 0x0A ?c1) \<noteq> [] \<longrightarrow>
      split_on 0x0A (filter_lines ?c1) =
        map trim (filter (\<lambda>l. hasHebrew l \<or> hasDeva l) (split_on 0x0A ?c1))"
    by (elim conjE)
  from imp [unfolded kept]
  have "split_on 0x0A (filter_lines ?c1) = map trim [[0x20, 0x05D0, 0x0D], [0x0905]]"
    by simp
  then show "split_on 0x0A (filter_lines ?c1) = [[0x05D0], [0x0905]]"
    by (simp add: trim_def is_ws_def)
qed

section \<open>The startup check\<close>

lemma missing_names:
  "missing penv = filter (\<lambda>k. penv k = None \<or> penv k = Some []) required"
proof -
  have "\<not> truthy (env_value penv k) \<longleftrightarrow> penv k = None \<or> penv k = Some []" for k
    by (cases "penv k") (simp_all add: env_value_def)
  then show ?thesis by (simp add: missing_def)
qed

lemma start_exits:
  assumes "\<exists>k\<in>set required. penv k = None \<or> penv k = Some []"
  shows "start penv =
           Exit 1 (lit ''Missing env vars: ''
                   @ join_js (filter (\<lambda>k. penv k = None \<or> penv k = Some []) required) (lit '', ''))"
proof -
  from assms have "filter (\<lambda>k. penv k = None \<or> penv k = Some []) required \<noteq> []"
    by (simp add: filter_empty_conv)
  then show ?thesis by (simp add: start_def missing_names lit_def)
qed

lemma start_serves:
  assumes "\<forall>k\<in>set required. \<exists>v. penv k = Some v \<and> v \<noteq> []"
  shows "start penv = Serving"
proof -
  from assms have "filter (\<lambda>k. penv k = None \<or> penv k = Some []) required = []"
    by (auto simp add: filter_empty_conv)
  then show ?thesis by (simp add: start_def missing_names)
qed

text \<open>
  C8: the required names are the key of the news provider, the key of the completion
  provider, and the key and the region of the speech provider. A value is absent when the
  variable is not set or is set to the empty string. If one of the four is absent, the
  process exits with status 1 after the line \<^verbatim>\<open>Missing env vars: \<close> followed by the
  names of exactly the absent values, in the order of the list and separated by commas;
  if all four are present, the server starts.
\<close>

theorem startup_check:
  "required =
     [lit ''NEWSAPI_KEY'', lit ''OPENAI_API_KEY'', lit ''AZURE_SPEECH_KEY'',
      lit ''AZURE_SPEECH_REGION'']
   \<and> missing penv = filter (\<lambda>k. penv k = None \<or> penv k = Some []) required
   \<and> ((\<exists>k\<in>set required. penv k = None \<or> penv k = Some []) \<longrightarrow>
        start penv = Exit 1 (lit ''Missing env vars: '' @ join_js (missing penv) (lit '', '')))
   \<and> ((\<forall>k\<in>set required. \<exists>v. penv k = Some v \<and> v \<noteq> []) \<longrightarrow> start penv = Serving)"
  using missing_names [of penv] start_exits [of penv] start_serves [of penv]
  by (simp add: required_def)

theorem startup_check_witness:
  "start [lit ''NEWSAPI_KEY'' \<mapsto> lit ''k1'', lit ''AZURE_SPEECH_KEY'' \<mapsto> lit ''k3'',
          lit ''AZURE_SPEECH_REGION'' \<mapsto> []]
     = Exit 1 (lit ''Missing env vars: OPENAI_API_KEY, AZURE_SPEECH_REGION'')
   \<and> start [lit ''NEWSAPI_KEY'' \<mapsto> lit ''k1'', lit ''OPENAI_API_KEY'' \<mapsto> lit ''k2'',
            lit ''AZURE_SPEECH_KEY'' \<mapsto> lit ''k3'', lit ''AZURE_SPEECH_REGION'' \<mapsto> lit ''westeurope'']
     = Serving"
proof -
  let ?p1 = "[lit ''NEWSAPI_KEY'' \<mapsto> lit ''k1'', lit ''AZURE_SPEECH_KEY'' \<mapsto> lit ''k3'',
          lit ''AZURE_SPEECH_REGION'' \<mapsto> []]"
  let ?p2 = "[lit ''NEWSAPI_KEY'' \<mapsto> lit ''k1'', lit ''OPENAI_API_KEY'' \<mapsto> lit ''k2'',
            lit ''AZURE_SPEECH_KEY'' \<mapsto> lit ''k3'', lit ''AZURE_SPEECH_REGION'' \<mapsto> lit ''westeurope'']"
  have m: "missing ?p1 = [lit ''OPENAI_API_KEY'', lit ''AZURE_SPEECH_REGION'']"
    by (simp add: missing_names required_def lit_def)
  have "\<exists>k\<in>set required. ?p1 k = None \<or> ?p1 k = Some []"
    by (simp add: required_def lit_def)
  with startup_check [of ?p1] m
  have 1: "start ?p1 = Exit 1 (lit ''Missing env vars: OPENAI_API_KEY, AZURE_SPEECH_REGION'')"
    by (simp add: lit_def)
  have "\<forall>k\<in>set required. \<exists>v. ?p2 k = Some v \<and> v \<noteq> []"
    by (simp add: required_def lit_def)
  with startup_check [of ?p2] have 2: "start ?p2 = Serving" by blast
  from 1 2 show ?thesis by simp
qed

section \<open>Parsing the completion of the word map\<close>

lemma takeWhile_until: "c \<notin> set pre \<Longrightarrow> takeWhile (\<lambda>x. x \<noteq> c) (pre @ c # rest) = pre"
  by (induction pre) auto

lemma takeWhile_at_most: "length (takeWhile (\<lambda>x. x \<noteq> c) (pre @ c # rest)) \<le> length pre"
  by (induction pre) auto

lemma indexOf_first:
  assumes "c \<notin> set pre"
  shows "indexOf (pre @ c # rest) c = int (length pre)"
  using assms by (simp add: indexOf_def takeWhile_until)

lemma lastIndexOf_last:
  assumes "c \<notin> set post"
  shows "lastIndexOf (pre @ c # post) c = int (length pre)"
proof -
  have "takeWhile (\<lambda>x. x \<noteq> c) (rev post @ c # rev pre) = rev post"
    using assms by (simp add: takeWhile_until)
  then show ?thesis by (simp add: lastIndexOf_def)
qed

lemma brace_pair_found:
  assumes "raw = pre @ [lb] @ mid @ [rb] @ post" and "lb \<notin> set pre" and "rb \<notin> set post"
  shows "indexOf raw lb = int (length pre)"
    and "lastIndexOf raw rb = int (length pre) + 1 + int (length mid)"
    and "slice raw (indexOf raw lb) (lastIndexOf raw rb + 1) = [lb] @ mid @ [rb]"
proof -
  show 1: "indexOf raw lb = int (length pre)"
    using assms(1,2) indexOf_first [of lb pre "mid @ [rb] @ post"] by simp
  have "raw = (pre @ [lb] @ mid) @ rb # post" using assms(1) by simp
  then have "lastIndexOf raw rb = int (length (pre @ [lb] @ mid))"
    using lastIndexOf_last [OF assms(3), of "pre @ [lb] @ mid"] by simp
  then show 2: "lastIndexOf raw rb = int (length pre) + 1 + int (length mid)" by simp
  have "nat (2 + int (length mid)) = Suc (Suc (length mid))" by simp
  then show "slice raw (indexOf raw lb) (lastIndexOf raw rb + 1) = [lb] @ mid @ [rb]"
    unfolding 1 2 by (simp add: slice_def assms(1))
qed

lemma brace_pair_exists:
  assumes "0 \<le> indexOf raw lb" and "indexOf raw lb < lastIndexOf raw rb"
  shows "\<exists>pre mid post. raw = pre @ [lb] @ mid @ [rb] @ post \<and> lb \<notin> set pre \<and> rb \<notin> set post"
proof -
  from assms(1) have "lb \<in> set raw" by (auto simp add: indexOf_def split: if_splits)
  then obtain A B where A: "raw = A @ lb # B" "lb \<notin> set A"
    by (auto dest: split_list_first)
  from assms have "rb \<in> set raw" by (auto simp add: lastIndexOf_def split: if_splits)
  then obtain C D where C: "raw = C @ rb # D" "rb \<notin> set D"
    by (auto dest: split_list_last)
  from A have "indexOf raw lb = int (length A)" by (simp add: indexOf_first)
  moreover from C have "lastIndexOf raw rb = int (length C)" by (simp add: lastIndexOf_last)
  ultimately have len: "length A < length C" using assms(2) by simp
  from A C have "A @ lb # B = C @ rb # D" by simp
  then obtain us where "(A @ us = C \<and> lb # B = us @ rb # D) \<or> (A = C @ us \<and> us @ lb # B = rb # D)"
    by (auto simp add: append_eq_append_conv2)
  with len obtain us where us: "A @ us = C" "lb # B = us @ rb # D" by auto
  with len obtain mid where "us = lb # mid" by (cases us) auto
  with us C have "raw = A @ [lb] @ mid @ [rb] @ D" by auto
  with A(2) C(2) show ?thesis by blast
qed

lemma brace_pair_any:
  assumes "raw = pre @ [lb] @ mid @ [rb] @ post"
  shows "0 \<le> indexOf raw lb \<and> indexOf raw lb < lastIndexOf raw rb"
proof -
  have "lb \<in> set raw" using assms by simp
  then have i: "indexOf raw lb = int (length (takeWhile (\<lambda>x. x \<noteq> lb) raw))"
    by (simp add: indexOf_def)
  have "length (takeWhile (\<lambda>x. x \<noteq> lb) raw) \<le> length pre"
    unfolding assms using takeWhile_at_most [of lb pre "mid @ [rb] @ post"] by simp
  moreover have "rb \<in> set raw" using assms by simp
  then have l: "lastIndexOf raw rb =
      int (length raw) - 1 - int (length (takeWhile (\<lambda>x. x \<noteq> rb) (rev raw)))"
    by (simp add: lastIndexOf_def)
  have "length (takeWhile (\<lambda>x. x \<noteq> rb) (rev raw)) \<le> length post"
    unfolding assms using takeWhile_at_most [of rb "rev post" "rev mid @ lb # rev pre"] by simp
  moreover have "length raw = length pre + length mid + length post + 2" unfolding assms by simp
  ultimately show ?thesis using i l by simp
qed

lemma parse_completion_direct:
  assumes "parse raw = Some v"
  shows "parse_completion parse raw = Inr v"
  using assms by (simp add: parse_completion_def)

lemma parse_completion_fallback:
  assumes "parse raw = None" and "raw = pre @ [0x7B] @ mid @ [0x7D] @ post"
    and "0x7B \<notin> set pre" and "0x7D \<notin> set post"
  shows "parse_completion parse raw =
           (case parse ([0x7B] @ mid @ [0x7D]) of Some v \<Rightarrow> Inr v | None \<Rightarrow> Inl SyntaxError)"
  using assms(1) brace_pair_found [OF assms(2,3,4)]
  by (simp add: parse_completion_def Let_def)

lemma parse_completion_no_pair:
  assumes "parse raw = None" and "\<nexists>pre mid post. raw = pre @ [0x7B] @ mid @ [0x7D] @ post"
  shows "parse_completion parse raw = Inl (Error (lit ''Failed to parse JSON from model''))"
proof -
  have "\<not> (0 \<le> indexOf raw 0x7B \<and> indexOf raw 0x7B < lastIndexOf raw 0x7D)"
    using assms(2) brace_pair_exists [of raw "0x7B" "0x7D"] by blast
  with assms(1) show ?thesis by (auto simp add: parse_completion_def Let_def)
qed

section \<open>The glosses of the word map\<close>

lemma conversion_throws_truthy: "conversion_throws v \<Longrightarrow> truthy v"
  by (cases v) simp_all

lemma own_defined_truthy: "own item k \<noteq> Undefined \<Longrightarrow> truthy item"
  by (cases item) simp_all

lemma ToString_throws:
  assumes "conversion_throws v"
  shows "ToString fmt v = Inl TypeError"
proof (cases "ToString fmt v")
  case (Inl e)
  then show ?thesis using ToString_error(1) by blast
next
  case (Inr s)
  then show ?thesis using ToString_succeeds(1) [of fmt v] assms by blast
qed

lemma gloss_throws:
  assumes "conversion_throws (own item (lit ''he''))"
  shows "gloss fmt item = Inl TypeError"
proof -
  from assms have h: "truthy (own item (lit ''he''))" by (rule conversion_throws_truthy)
  then have "own item (lit ''he'') \<noteq> Undefined" by auto
  then have "truthy item" by (rule own_defined_truthy)
  with h ToString_throws [OF assms] show ?thesis by (simp add: gloss_def and_then_def)
qed

lemma gloss_ok:
  assumes "\<not> conversion_throws (own item (lit ''he''))"
  shows "\<exists>h. gloss fmt item = Inr h"
proof -
  from assms ToString_succeeds(1) [of fmt "own item (lit ''he'')"]
  obtain s where "ToString fmt (own item (lit ''he'')) = Inr s" by blast
  then show ?thesis by (simp add: gloss_def and_then_def)
qed

lemma gloss_of_string:
  assumes "map_of kvs (lit ''he'') = Some (Str h)"
  shows "gloss fmt (Obj kvs) = Inr (if hasHebrew h then h else [])"
  using assms by (cases "h = []") (simp_all add: gloss_def and_then_def hasHebrew_def)

lemma gloss_of_missing: "gloss fmt Undefined = Inr []"
  by (simp add: gloss_def and_then_def hasHebrew_def)

lemma normalized_entries:
  assumes "\<forall>i<length ws. \<not> conversion_throws (own (item_at out (idx + i)) (lit ''he''))"
  shows "\<exists>hes. length hes = length ws \<and>
           (\<forall>i<length ws. gloss fmt (item_at out (idx + i)) = Inr (hes ! i)) \<and>
           normalized fmt out ws idx =
             Inr (map2 (\<lambda>w h. Obj [(lit ''hi'', Str w), (lit ''he'', Str h)]) ws hes)"
  using assms
proof (induction ws arbitrary: idx)
  case Nil
  then show ?case by simp
next
  case (Cons w ws)
  from Cons.prems have "\<not> conversion_throws (own (item_at out idx) (lit ''he''))" by force
  with gloss_ok obtain h where h: "gloss fmt (item_at out idx) = Inr h" by blast
  from Cons.prems have "\<forall>i<length ws. \<not> conversion_throws (own (item_at out (Suc idx + i)) (lit ''he''))"
    by force
  from Cons.IH [OF this] obtain hes where hes: "length hes = length ws"
    "\<forall>i<length ws. gloss fmt (item_at out (Suc idx + i)) = Inr (hes ! i)"
    "normalized fmt out ws (Suc idx) =
       Inr (map2 (\<lambda>w h. Obj [(lit ''hi'', Str w), (lit ''he'', Str h)]) ws hes)"
    by blast
  have "\<forall>i<length (w # ws). gloss fmt (item_at out (idx + i)) = Inr ((h # hes) ! i)"
  proof (intro allI impI)
    fix i
    assume "i < length (w # ws)"
    then show "gloss fmt (item_at out (idx + i)) = Inr ((h # hes) ! i)"
      using h hes(2) by (cases i) auto
  qed
  moreover have "normalized fmt out (w # ws) idx =
      Inr (map2 (\<lambda>w h. Obj [(lit ''hi'', Str w), (lit ''he'', Str h)]) (w # ws) (h # hes))"
    using h hes(3) by (simp add: and_then_def)
  moreover have "length (h # hes) = length (w # ws)" using hes(1) by simp
  ultimately show ?case by blast
qed

lemma normalized_error: "normalized fmt out ws idx = Inl e \<Longrightarrow> e = TypeError"
proof (induction ws arbitrary: idx)
  case Nil
  then show ?case by simp
next
  case (Cons w ws)
  show ?case
  proof (cases "gloss fmt (item_at out idx)")
    case (Inl e')
    with Cons.prems have "e = e'" by (simp add: and_then_def)
    moreover from Inl have "e' = TypeError"
      using gloss_ok [of "item_at out idx" fmt] gloss_throws [of "item_at out idx" fmt]
      by (cases "conversion_throws (own (item_at out idx) (lit ''he''))") auto
    ultimately show ?thesis by simp
  next
    case (Inr h)
    with Cons.prems Cons.IH [of "Suc idx"] show ?thesis
      by (auto simp add: and_then_def split: sum.splits)
  qed
qed

lemma normalized_throws:
  assumes "i < length ws" and "conversion_throws (own (item_at out (idx + i)) (lit ''he''))"
  shows "normalized fmt out ws idx = Inl TypeError"
proof (cases "normalized fmt out ws idx")
  case (Inl e)
  then show ?thesis using normalized_error by blast
next
  case (Inr entries)
  have "\<not> (\<exists>i<length ws. conversion_throws (own (item_at out (idx + i)) (lit ''he'')))"
    using Inr
  proof (induction ws arbitrary: idx entries)
    case Nil
    then show ?case by simp
  next
    case (Cons w ws)
    from Cons.prems obtain h rest where h: "gloss fmt (item_at out idx) = Inr h"
      and rest: "normalized fmt out ws (Suc idx) = Inr rest"
      by (auto simp add: and_then_def split: sum.splits)
    from h have 0: "\<not> conversion_throws (own (item_at out idx) (lit ''he''))"
      using gloss_throws [of "item_at out idx" fmt] by auto
    from Cons.IH [OF rest]
    have r: "\<not> (\<exists>i<length ws. conversion_throws (own (item_at out (Suc idx + i)) (lit ''he'')))" .
    show ?case
    proof
      assume "\<exists>i<length (w # ws). conversion_throws (own (item_at out (idx + i)) (lit ''he''))"
      then obtain i where i: "i < length (w # ws)"
        "conversion_throws (own (item_at out (idx + i)) (lit ''he''))" by blast
      show False
      proof (cases i)
        case 0
        with i 0 \<open>\<not> conversion_throws (own (item_at out idx) (lit ''he''))\<close> show False by simp
      next
        case (Suc j)
        with i r show False by auto
      qed
    qed
  qed
  with assms show ?thesis by blast
qed

lemma wordmap_completed:
  assumes "truthy (own (js_or body (Obj [])) (lit ''sentence''))"
    and "ToString (number_format E) (own (js_or body (Obj [])) (lit ''sentence'')) = Inr s"
    and "split_words s \<noteq> []"
    and "chat_completions_create E (wordmap_prompt (split_words s)) = Inr completion"
    and "message_content completion = Inr (Str c)"
  shows "wordmap_handler E body =
           \<lparr>response =
              Responded
                (case and_then (parse_completion (JSON_parse E) (trim c))
                        (\<lambda>parsed. normalized (number_format E) (out_words parsed) (split_words s) 0) of
                   Inl e \<Rightarrow> Failure 500 (lit ''Wordmap error'') e
                 | Inr entries \<Rightarrow> Json 200 (Obj [(lit ''words'', Arr entries)])),
            outbound = [ChatCompletion model_name (wordmap_prompt (split_words s))]\<rparr>"
proof -
  have "js_or (Str c) (Str []) = Str c" by (simp add: js_or_def)
  with assms show ?thesis
    by (simp add: wordmap_handler_def Let_def and_then_def wordmap_result_def)
qed

lemma wordmap_answered:
  assumes "truthy (own (js_or body (Obj [])) (lit ''sentence''))"
    and "ToString (number_format E) (own (js_or body (Obj [])) (lit ''sentence'')) = Inr s"
    and "split_words s = ws" and "ws \<noteq> []"
    and "chat_completions_create E (wordmap_prompt ws) = Inr completion"
    and "message_content completion = Inr (Str c)"
    and "parse_completion (JSON_parse E) (trim c) = Inr parsed"
    and "\<forall>i<length ws. \<not> conversion_throws (own (item_at (out_words parsed) i) (lit ''he''))"
  shows "\<exists>entries.
           wordmap_handler E body =
             \<lparr>response = Responded (Json 200 (Obj [(lit ''words'', Arr entries)])),
              outbound = [ChatCompletion model_name (wordmap_prompt ws)]\<rparr>
           \<and> length entries = length ws
           \<and> (\<forall>i<length ws. own (entries ! i) (lit ''hi'') = Str (ws ! i))
           \<and> map (\<lambda>e. own e (lit ''hi'')) entries = map Str ws
           \<and> (\<forall>i<length ws. \<exists>h.
                 gloss (number_format E) (item_at (out_words parsed) i) = Inr h \<and>
                 entries ! i = Obj [(lit ''hi'', Str (ws ! i)), (lit ''he'', Str h)])"
proof -
  from assms(8) have "\<forall>i<length ws.
      \<not> conversion_throws (own (item_at (out_words parsed) (0 + i)) (lit ''he''))" by simp
  from normalized_entries [OF this, of "number_format E"]
  obtain hes where hes: "length hes = length ws"
    "\<forall>i<length ws. gloss (number_format E) (item_at (out_words parsed) i) = Inr (hes ! i)"
    "normalized (number_format E) (out_words parsed) ws 0 =
       Inr (map2 (\<lambda>w h. Obj [(lit ''hi'', Str w), (lit ''he'', Str h)]) ws hes)"
    by auto
  let ?entries = "map2 (\<lambda>w h. Obj [(lit ''hi'', Str w), (lit ''he'', Str h)]) ws hes"
  have h: "wordmap_handler E body =
             \<lparr>response = Responded (Json 200 (Obj [(lit ''words'', Arr ?entries)])),
              outbound = [ChatCompletion model_name (wordmap_prompt ws)]\<rparr>"
    using wordmap_completed [OF assms(1,2) _ _ assms(6)] assms(3,4,5,7) hes(3)
    by (simp add: and_then_def)
  have l: "length ?entries = length ws" using hes(1) by simp
  have n: "?entries ! i = Obj [(lit ''hi'', Str (ws ! i)), (lit ''he'', Str (hes ! i))]"
    if "i < length ws" for i
    using that hes(1) by simp
  have "\<forall>i<length ws. own (?entries ! i) (lit ''hi'') = Str (ws ! i)"
    using n by simp
  moreover have "map (\<lambda>e. own e (lit ''hi'')) ?entries = map Str ws"
    using l n by (simp add: list_eq_iff_nth_eq)
  moreover have "\<forall>i<length ws. \<exists>h.
                 gloss (number_format E) (item_at (out_words parsed) i) = Inr h \<and>
                 ?entries ! i = Obj [(lit ''hi'', Str (ws ! i)), (lit ''he'', Str h)]"
    using n hes(2) by simp
  ultimately show ?thesis using h l by blast
qed

lemma wordmap_parse_failed:
  assumes "truthy (own (js_or body (Obj [])) (lit ''sentence''))"
    and "ToString (number_format E) (own (js_or body (Obj [])) (lit ''sentence'')) = Inr s"
    and "split_words s = ws" and "ws \<noteq> []"
    and "chat_completions_create E (wordmap_prompt ws) = Inr completion"
    and "message_content completion = Inr (Str c)"
    and "parse_completion (JSON_parse E) (trim c) = Inl e"
  shows "wordmap_handler E body =
           \<lparr>response = Responded (Failure 500 (lit ''Wordmap error'') e),
            outbound = [ChatCompletion model_name (wordmap_prompt ws)]\<rparr>"
  using wordmap_completed [OF assms(1,2) _ _ assms(6)] assms(3,4,5,7)
  by (simp add: and_then_def)

lemma wordmap_gloss_failed:
  assumes "truthy (own (js_or body (Obj [])) (lit ''sentence''))"
    and "ToString (number_format E) (own (js_or body (Obj [])) (lit ''sentence'')) = Inr s"
    and "split_words s = ws" and "ws \<noteq> []"
    and "chat_completions_create E (wordmap_prompt ws) = Inr completion"
    and "message_content completion = Inr (Str c)"
    and "parse_completion (JSON_parse E) (trim c) = Inr parsed"
    and "\<exists>i<length ws. conversion_throws (own (item_at (out_words parsed) i) (lit ''he''))"
  shows "wordmap_handler E body =
           \<lparr>response = Responded (Failure 500 (lit ''Wordmap error'') TypeError),
            outbound = [ChatCompletion model_name (wordmap_prompt ws)]\<rparr>"
proof -
  from assms(8) obtain i where "i < length ws"
    "conversion_throws (own (item_at (out_words parsed) (0 + i)) (lit ''he''))" by auto
  from normalized_throws [OF this]
  have "normalized (number_format E) (out_words parsed) ws 0 = Inl TypeError" .
  then show ?thesis
    using wordmap_completed [OF assms(1,2) _ _ assms(6)] assms(3,4,5,7)
    by (simp add: and_then_def)
qed

lemma two_entries:
  assumes "length xs = 2" and "xs ! 0 = a" and "xs ! 1 = b"
  shows "xs = [a, b]"
proof -
  from assms(1) obtain x y where "xs = [x, y]"
    by (cases xs; cases "tl xs") auto
  with assms(2,3) show ?thesis by simp
qed

lemmas wordmap_eval =
  js_or_def lit_def message_content_def get_prop_def and_then_def
  parse_completion_def trim_def is_ws_def out_words_def item_at_def gloss_def
  has_own_def hasHebrew_def

section \<open>The word map keeps the words\<close>

text \<open>
  C1, as stated, fails: a completion that parses may carry a gloss that is an object with
  an own \<^verbatim>\<open>toString\<close> property, and \<^verbatim>\<open>String(item.he)\<close> then throws a \<^verbatim>\<open>TypeError\<close>
  (the property is not callable and \<^verbatim>\<open>valueOf\<close> returns the object). The handler
  catches it and answers 500, so no words array is returned for the two words.
\<close>

theorem wordmap_gloss_object_rejected:
  \<open>split_words (lit ''ek din'') = [lit ''ek'', lit ''din'']
   \<and> parse_completion
       [lit ''{"words":[{"hi":"ek","he":{"toString":1}}]}'' \<mapsto>
          Obj [(lit ''words'',
            Arr [Obj [(lit ''hi'', Str (lit ''ek'')),
                      (lit ''he'', Obj [(lit ''toString'', Num (Fin 1))])]])]]
       (lit ''{"words":[{"hi":"ek","he":{"toString":1}}]}'')
     = Inr (Obj [(lit ''words'',
            Arr [Obj [(lit ''hi'', Str (lit ''ek'')),
                      (lit ''he'', Obj [(lit ''toString'', Num (Fin 1))])]])])
   \<and> response
       (wordmap_handler
          \<lparr>number_format = (\<lambda>q. []),
           JSON_parse =
             [lit ''{"words":[{"hi":"ek","he":{"toString":1}}]}'' \<mapsto>
                Obj [(lit ''words'',
                  Arr [Obj [(lit ''hi'', Str (lit ''ek'')),
                            (lit ''he'', Obj [(lit ''toString'', Num (Fin 1))])]])]],
           chat_completions_create =
             (\<lambda>prompt. Inr (Obj [(lit ''choices'',
                Arr [Obj [(lit ''message'',
                  Obj [(lit ''content'',
                    Str (lit ''{"words":[{"hi":"ek","he":{"toString":1}}]}''))])]])])),
           speakSsmlAsync = (\<lambda>ssml. Failed [])\<rparr>
          (Obj [(lit ''sentence'', Str (lit ''ek din''))]))
     = Responded (Failure 500 (lit ''Wordmap error'') TypeError)\<close>
proof -
  let ?raw = \<open>lit ''{"words":[{"hi":"ek","he":{"toString":1}}]}''\<close>
  let ?parsed = "Obj [(lit ''words'',
            Arr [Obj [(lit ''hi'', Str (lit ''ek'')),
                      (lit ''he'', Obj [(lit ''toString'', Num (Fin 1))])]])]"
  let ?k = "Obj [(lit ''choices'',
                Arr [Obj [(lit ''message'', Obj [(lit ''content'', Str ?raw)])]])]"
  let ?E = "\<lparr>number_format = (\<lambda>q. []), JSON_parse = [?raw \<mapsto> ?parsed],
           chat_completions_create = (\<lambda>prompt. Inr ?k),
           speakSsmlAsync = (\<lambda>ssml. Failed [])\<rparr>"
  let ?body = "Obj [(lit ''sentence'', Str (lit ''ek din''))]"
  have w: "split_words (lit ''ek din'') = [lit ''ek'', lit ''din'']"
    by (simp add: words_eval)
  have t: "trim ?raw = ?raw" by (simp add: trim_def is_ws_def lit_def)
  have p: "parse_completion [?raw \<mapsto> ?parsed] ?raw = Inr ?parsed"
    by (simp add: parse_completion_def)
  have 1: "truthy (own (js_or ?body (Obj [])) (lit ''sentence''))"
    by (simp add: js_or_def lit_def)
  have 2: "ToString (number_format ?E) (own (js_or ?body (Obj [])) (lit ''sentence''))
      = Inr (lit ''ek din'')"
    by (simp add: js_or_def)
  have 3: "message_content ?k = Inr (Str ?raw)" by (simp add: handler_eval)
  have 4: "\<exists>i<length [lit ''ek'', lit ''din'' :: jsstr].
      conversion_throws (own (item_at (out_words ?parsed) i) (lit ''he''))"
    by (rule exI [of _ 0]) (simp add: out_words_def item_at_def has_own_def lit_def)
  have "wordmap_handler ?E ?body =
           \<lparr>response = Responded (Failure 500 (lit ''Wordmap error'') TypeError),
            outbound = [ChatCompletion model_name (wordmap_prompt [lit ''ek'', lit ''din''])]\<rparr>"
    by (rule wordmap_gloss_failed [OF 1 2 w _ _ 3 _ 4]) (simp_all add: t p)
  with w p show ?thesis by simp
qed

text \<open>
  C1, amended: for every request whose sentence splits into a non-empty word list, and
  every completion that parses (directly or through the braces) such that no gloss
  \<^verbatim>\<open>he\<close> at a position below the number of words throws when converted to a string (it
  is no object with an own \<^verbatim>\<open>toString\<close> property and no array that holds one), the
  handler answers 200 with a words array of the length of the word list; its entry at
  \<open>i\<close> has exactly the fields \<^verbatim>\<open>hi\<close>, the word at \<open>i\<close> as it is, and \<^verbatim>\<open>he\<close>, the
  gloss computed from the entry at \<open>i\<close> of the parsed array; this holds whatever the
  length of the parsed array.
\<close>

theorem wordmap_positional:
  "truthy (own (js_or body (Obj [])) (lit ''sentence'')) \<and>
   ToString (number_format E) (own (js_or body (Obj [])) (lit ''sentence'')) = Inr s \<and>
   split_words s = ws \<and> ws \<noteq> [] \<and>
   chat_completions_create E (wordmap_prompt ws) = Inr completion \<and>
   message_content completion = Inr (Str c) \<and>
   parse_completion (JSON_parse E) (trim c) = Inr parsed \<and>
   (\<forall>i<length ws. \<not> conversion_throws (own (item_at (out_words parsed) i) (lit ''he'')))
   \<longrightarrow>
   (\<exists>entries.
      wordmap_handler E body =
        \<lparr>response = Responded (Json 200 (Obj [(lit ''words'', Arr entries)])),
         outbound = [ChatCompletion model_name (wordmap_prompt ws)]\<rparr>
      \<and> length entries = length ws
      \<and> (\<forall>i<length ws. own (entries ! i) (lit ''hi'') = Str (ws ! i))
      \<and> map (\<lambda>e. own e (lit ''hi'')) entries = map Str ws
      \<and> (\<forall>i<length ws. \<exists>h.
            gloss (number_format E) (item_at (out_words parsed) i) = Inr h \<and>
            entries ! i = Obj [(lit ''hi'', Str (ws ! i)), (lit ''he'', Str h)]))"
  using wordmap_answered [of body E s ws completion c parsed] by blast

theorem wordmap_positional_witness:
  \<open>\<forall>fmt speech.
     wordmap_handler
       \<lparr>number_format = fmt,
        JSON_parse =
          [lit ''{"words":[{"hi":"ek","he":"'' @ [0x05D0, 0x05D7, 0x05D3] @ lit ''"}]}'' \<mapsto>
             Obj [(lit ''words'',
               Arr [Obj [(lit ''hi'', Str (lit ''ek'')),
                         (lit ''he'', Str [0x05D0, 0x05D7, 0x05D3])]])]],
        chat_completions_create =
          (\<lambda>prompt. Inr (Obj [(lit ''choices'',
             Arr [Obj [(lit ''message'',
               Obj [(lit ''content'',
                 Str (lit ''{"words":[{"hi":"ek","he":"'' @ [0x05D0, 0x05D7, 0x05D3]
                      @ lit ''"}]}''))])]])])),
        speakSsmlAsync = speech\<rparr>
       (Obj [(lit ''sentence'', Str (lit ''ek din''))])
     = \<lparr>response =
          Responded
            (Json 200
               (Obj [(lit ''words'',
                  Arr [Obj [(lit ''hi'', Str (lit ''ek'')),
                            (lit ''he'', Str [0x05D0, 0x05D7, 0x05D3])],
                       Obj [(lit ''hi'', Str (lit ''din'')), (lit ''he'', Str [])]])])),
        outbound = [ChatCompletion model_name (wordmap_prompt [lit ''ek'', lit ''din''])]\<rparr>\<close>
proof (intro allI)
  fix fmt :: "rat \<Rightarrow> jsstr" and speech :: "jsstr \<Rightarrow> speech_outcome"
  let ?raw = \<open>lit ''{"words":[{"hi":"ek","he":"'' @ [0x05D0, 0x05D7, 0x05D3] @ lit ''"}]}''\<close>
  let ?parsed = "Obj [(lit ''words'',
               Arr [Obj [(lit ''hi'', Str (lit ''ek'')),
                         (lit ''he'', Str [0x05D0, 0x05D7, 0x05D3])]])]"
  let ?k = "Obj [(lit ''choices'',
                Arr [Obj [(lit ''message'', Obj [(lit ''content'', Str ?raw)])]])]"
  let ?E = "\<lparr>number_format = fmt, JSON_parse = [?raw \<mapsto> ?parsed],
           chat_completions_create = (\<lambda>prompt. Inr ?k), speakSsmlAsync = speech\<rparr>"
  let ?body = "Obj [(lit ''sentence'', Str (lit ''ek din''))]"
  let ?ws = "[lit ''ek'', lit ''din''] :: jsstr list"
  have w: "split_words (lit ''ek din'') = ?ws" by (simp add: words_eval)
  have t: "trim ?raw = ?raw" by (simp add: trim_def is_ws_def lit_def)
  have p: "parse_completion (JSON_parse ?E) (trim ?raw) = Inr ?parsed"
    unfolding t by (simp add: parse_completion_def)
  have 1: "truthy (own (js_or ?body (Obj [])) (lit ''sentence''))"
    by (simp add: js_or_def lit_def)
  have 2: "ToString (number_format ?E) (own (js_or ?body (Obj [])) (lit ''sentence''))
      = Inr (lit ''ek din'')"
    by (simp add: js_or_def)
  have 3: "message_content ?k = Inr (Str ?raw)" by (simp add: handler_eval)
  have 4: "\<forall>i<length ?ws. \<not> conversion_throws (own (item_at (out_words ?parsed) i) (lit ''he''))"
    by (simp add: out_words_def item_at_def lit_def less_Suc_eq)
  have g0: "gloss fmt (item_at (out_words ?parsed) 0) = Inr [0x05D0, 0x05D7, 0x05D3]"
    by (simp add: wordmap_eval)
  have g1: "gloss fmt (item_at (out_words ?parsed) 1) = Inr []"
    by (simp add: wordmap_eval)
  from wordmap_positional [of ?body ?E "lit ''ek din''" ?ws ?k ?raw ?parsed] w 1 2 3 4 p
  obtain entries where e: "wordmap_handler ?E ?body =
        \<lparr>response = Responded (Json 200 (Obj [(lit ''words'', Arr entries)])),
         outbound = [ChatCompletion model_name (wordmap_prompt ?ws)]\<rparr>"
    and l: "length entries = length ?ws"
    and n: "\<forall>i<length ?ws. \<exists>h.
            gloss (number_format ?E) (item_at (out_words ?parsed) i) = Inr h \<and>
            entries ! i = Obj [(lit ''hi'', Str (?ws ! i)), (lit ''he'', Str h)]"
    by auto
  from n g0 have e0: "entries ! 0 =
      Obj [(lit ''hi'', Str (lit ''ek'')), (lit ''he'', Str [0x05D0, 0x05D7, 0x05D3])]"
    by auto
  from n g1 have e1: "entries ! 1 = Obj [(lit ''hi'', Str (lit ''din'')), (lit ''he'', Str [])]"
    by (auto simp add: less_Suc_eq)
  from l have "length entries = 2" by simp
  from two_entries [OF this e0 e1] e
  show "wordmap_handler ?E ?body
     = \<lparr>response =
          Responded
            (Json 200
               (Obj [(lit ''words'',
                  Arr [Obj [(lit ''hi'', Str (lit ''ek'')),
                            (lit ''he'', Str [0x05D0, 0x05D7, 0x05D3])],
                       Obj [(lit ''hi'', Str (lit ''din'')), (lit ''he'', Str [])]])])),
        outbound = [ChatCompletion model_name (wordmap_prompt ?ws)]\<rparr>"
    by simp
qed

section \<open>When the word map fails\<close>

text \<open>
  C7, as stated, fails in its last part: the request can be a provider error although a
  parse succeeded. Here the completion has text around the JSON object, so the direct
  parse fails and the text from the first \<^verbatim>\<open>{\<close> to the last \<^verbatim>\<open>}\<close> parses; the gloss is
  an array that holds an object with an own \<^verbatim>\<open>toString\<close> property, its conversion to a
  string throws, and the handler answers 500.
\<close>

theorem wordmap_parsed_yet_500:
  \<open>parse_completion
       [lit ''{"words":[{"he":[{"toString":null}]}]}'' \<mapsto>
          Obj [(lit ''words'',
            Arr [Obj [(lit ''he'', Arr [Obj [(lit ''toString'', Null)]])]])]]
       (lit ''Here: {"words":[{"he":[{"toString":null}]}]} Done.'')
     = Inr (Obj [(lit ''words'',
            Arr [Obj [(lit ''he'', Arr [Obj [(lit ''toString'', Null)]])]])])
   \<and> response
       (wordmap_handler
          \<lparr>number_format = (\<lambda>q. []),
           JSON_parse =
             [lit ''{"words":[{"he":[{"toString":null}]}]}'' \<mapsto>
                Obj [(lit ''words'',
                  Arr [Obj [(lit ''he'', Arr [Obj [(lit ''toString'', Null)]])]])]],
           chat_completions_create =
             (\<lambda>prompt. Inr (Obj [(lit ''choices'',
                Arr [Obj [(lit ''message'',
                  Obj [(lit ''content'',
                    Str (lit ''Here: {"words":[{"he":[{"toString":null}]}]} Done.''))])]])])),
           speakSsmlAsync = (\<lambda>ssml. Failed [])\<rparr>
          (Obj [(lit ''sentence'', Str (lit ''namaste''))]))
     = Responded (Failure 500 (lit ''Wordmap error'') TypeError)\<close>
proof -
  let ?json = \<open>lit ''{"words":[{"he":[{"toString":null}]}]}''\<close>
  let ?raw = \<open>lit ''Here: {"words":[{"he":[{"toString":null}]}]} Done.''\<close>
  let ?parsed = "Obj [(lit ''words'',
            Arr [Obj [(lit ''he'', Arr [Obj [(lit ''toString'', Null)]])]])]"
  let ?k = "Obj [(lit ''choices'',
                Arr [Obj [(lit ''message'', Obj [(lit ''content'', Str ?raw)])]])]"
  let ?E = "\<lparr>number_format = (\<lambda>q. []), JSON_parse = [?json \<mapsto> ?parsed],
           chat_completions_create = (\<lambda>prompt. Inr ?k),
           speakSsmlAsync = (\<lambda>ssml. Failed [])\<rparr>"
  let ?body = "Obj [(lit ''sentence'', Str (lit ''namaste''))]"
  have w: "split_words (lit ''namaste'') = [lit ''namaste'']"
    by (simp add: words_eval)
  have t: "trim ?raw = ?raw" by (simp add: trim_def is_ws_def lit_def)
  have p: "parse_completion [?json \<mapsto> ?parsed] ?raw = Inr ?parsed"
    by (simp add: parse_completion_def indexOf_def lastIndexOf_def slice_def lit_def)
  have 1: "truthy (own (js_or ?body (Obj [])) (lit ''sentence''))"
    by (simp add: js_or_def lit_def)
  have 2: "ToString (number_format ?E) (own (js_or ?body (Obj [])) (lit ''sentence''))
      = Inr (lit ''namaste'')"
    by (simp add: js_or_def)
  have 3: "message_content ?k = Inr (Str ?raw)" by (simp add: handler_eval)
  have 4: "\<exists>i<length [lit ''namaste'' :: jsstr].
      conversion_throws (own (item_at (out_words ?parsed) i) (lit ''he''))"
    by (rule exI [of _ 0]) (simp add: out_words_def item_at_def has_own_def lit_def)
  have "wordmap_handler ?E ?body =
           \<lparr>response = Responded (Failure 500 (lit ''Wordmap error'') TypeError),
            outbound = [ChatCompletion model_name (wordmap_prompt [lit ''namaste''])]\<rparr>"
    by (rule wordmap_gloss_failed [OF 1 2 w _ _ 3 _ 4]) (simp_all add: t p)
  with p show ?thesis by simp
qed

text \<open>
  C7, amended: the raw completion is first parsed as it is. If that fails and the text
  has a first \<^verbatim>\<open>{\<close> with the last \<^verbatim>\<open>}\<close> after it, the text from the one through the other
  is parsed. If both parses fail, or there is no such pair, the handler answers 500 with
  the error of the parse. After a parse that succeeded the handler answers 500 exactly
  when converting a gloss at a position below the number of words throws, and otherwise
  200 with the words array.
\<close>

theorem wordmap_parse_cascade:
  "(parse raw = Some v \<longrightarrow> parse_completion parse raw = Inr v)
   \<and> (parse raw = None \<and> raw = pre @ [0x7B] @ mid @ [0x7D] @ post \<and>
        0x7B \<notin> set pre \<and> 0x7D \<notin> set post \<longrightarrow>
        parse_completion parse raw =
          (case parse ([0x7B] @ mid @ [0x7D]) of Some v \<Rightarrow> Inr v | None \<Rightarrow> Inl SyntaxError))
   \<and> (parse raw = None \<and>
        (\<nexists>pre mid post. raw = pre @ [0x7B] @ mid @ [0x7D] @ post \<and>
           0x7B \<notin> set pre \<and> 0x7D \<notin> set post) \<longrightarrow>
        parse_completion parse raw = Inl (Error (lit ''Failed to parse JSON from model'')))
   \<and> (truthy (own (js_or body (Obj [])) (lit ''sentence'')) \<and>
        ToString (number_format E) (own (js_or body (Obj [])) (lit ''sentence'')) = Inr s \<and>
        split_words s = ws \<and> ws \<noteq> [] \<and>
        chat_completions_create E (wordmap_prompt ws) = Inr completion \<and>
        message_content completion = Inr (Str c) \<longrightarrow>
        (\<forall>e. parse_completion (JSON_parse E) (trim c) = Inl e \<longrightarrow>
           response (wordmap_handler E body) = Responded (Failure 500 (lit ''Wordmap error'') e))
        \<and> (\<forall>parsed. parse_completion (JSON_parse E) (trim c) = Inr parsed \<longrightarrow>
             ((\<exists>i<length ws.
                 conversion_throws (own (item_at (out_words parsed) i) (lit ''he''))) \<longrightarrow>
              response (wordmap_handler E body) =
                Responded (Failure 500 (lit ''Wordmap error'') TypeError))
             \<and> ((\<forall>i<length ws.
                   \<not> conversion_throws (own (item_at (out_words parsed) i) (lit ''he''))) \<longrightarrow>
                (\<exists>entries. response (wordmap_handler E body) =
                   Responded (Json 200 (Obj [(lit ''words'', Arr entries)]))))))"
proof (intro conjI impI allI)
  assume "parse raw = Some v"
  then show "parse_completion parse raw = Inr v" by (rule parse_completion_direct)
next
  assume "parse raw = None \<and> raw = pre @ [0x7B] @ mid @ [0x7D] @ post \<and>
        0x7B \<notin> set pre \<and> 0x7D \<notin> set post"
  then show "parse_completion parse raw =
          (case parse ([0x7B] @ mid @ [0x7D]) of Some v \<Rightarrow> Inr v | None \<Rightarrow> Inl SyntaxError)"
    using parse_completion_fallback [of parse raw pre mid post] by blast
next
  assume a: "parse raw = None \<and>
        (\<nexists>pre mid post. raw = pre @ [0x7B] @ mid @ [0x7D] @ post \<and>
           0x7B \<notin> set pre \<and> 0x7D \<notin> set post)"
  then have "\<not> (0 \<le> indexOf raw 0x7B \<and> indexOf raw 0x7B < lastIndexOf raw 0x7D)"
    using brace_pair_exists [of raw "0x7B" "0x7D"] by blast
  with a show "parse_completion parse raw = Inl (Error (lit ''Failed to parse JSON from model''))"
    by (auto simp add: parse_completion_def Let_def)
next
  fix e
  assume "truthy (own (js_or body (Obj [])) (lit ''sentence'')) \<and>
        ToString (number_format E) (own (js_or body (Obj [])) (lit ''sentence'')) = Inr s \<and>
        split_words s = ws \<and> ws \<noteq> [] \<and>
        chat_completions_create E (wordmap_prompt ws) = Inr completion \<and>
        message_content completion = Inr (Str c)"
    and "parse_completion (JSON_parse E) (trim c) = Inl e"
  then show "response (wordmap_handler E body) = Responded (Failure 500 (lit ''Wordmap error'') e)"
    using wordmap_parse_failed [of body E s ws completion c e] by simp
next
  fix parsed
  assume "truthy (own (js_or body (Obj [])) (lit ''sentence'')) \<and>
        ToString (number_format E) (own (js_or body (Obj [])) (lit ''sentence'')) = Inr s \<and>
        split_words s = ws \<and> ws \<noteq> [] \<and>
        chat_completions_create E (wordmap_prompt ws) = Inr completion \<and>
        message_content completion = Inr (Str c)"
    and "parse_completion (JSON_parse E) (trim c) = Inr parsed"
    and "\<exists>i<length ws. conversion_throws (own (item_at (out_words parsed) i) (lit ''he''))"
  then show "response (wordmap_handler E body) =
      Responded (Failure 500 (lit ''Wordmap error'') TypeError)"
    using wordmap_gloss_failed [of body E s ws completion c parsed] by simp
next
  fix parsed
  assume "truthy (own (js_or body (Obj [])) (lit ''sentence'')) \<and>
        ToString (number_format E) (own (js_or body (Obj [])) (lit ''sentence'')) = Inr s \<and>
        split_words s = ws \<and> ws \<noteq> [] \<and>
        chat_completions_create E (wordmap_prompt ws) = Inr completion \<and>
        message_content completion = Inr (Str c)"
    and "parse_completion (JSON_parse E) (trim c) = Inr parsed"
    and "\<forall>i<length ws. \<not> conversion_throws (own (item_at (out_words parsed) i) (lit ''he''))"
  then obtain entries where "wordmap_handler E body =
        \<lparr>response = Responded (Json 200 (Obj [(lit ''words'', Arr entries)])),
         outbound = [ChatCompletion model_name (wordmap_prompt ws)]\<rparr>"
    using wordmap_answered [of body E s ws completion c parsed] by blast
  then show "\<exists>entries. response (wordmap_handler E body) =
      Responded (Json 200 (Obj [(lit ''words'', Arr entries)]))"
    by simp
qed

theorem wordmap_parse_cascade_witness:
  \<open>\<forall>fmt speech.
     parse_completion [lit ''{"words":[]}'' \<mapsto> Obj [(lit ''words'', Arr [])]]
         (lit ''Sure: {"words":[]} ok'')
       = Inr (Obj [(lit ''words'', Arr [])])
     \<and> parse_completion [lit ''{"words":[]}'' \<mapsto> Obj [(lit ''words'', Arr [])]]
         (lit ''} no json {'')
       = Inl (Error (lit ''Failed to parse JSON from model''))
     \<and> response
         (wordmap_handler
            \<lparr>number_format = fmt,
             JSON_parse = [lit ''{"words":[]}'' \<mapsto> Obj [(lit ''words'', Arr [])]],
             chat_completions_create =
               (\<lambda>prompt. Inr (Obj [(lit ''choices'',
                  Arr [Obj [(lit ''message'',
                    Obj [(lit ''content'', Str (lit ''} no json {''))])]])])),
             speakSsmlAsync = speech\<rparr>
            (Obj [(lit ''sentence'', Str (lit ''ek''))]))
       = Responded
           (Failure 500 (lit ''Wordmap error'') (Error (lit ''Failed to parse JSON from model'')))
     \<and> (\<exists>entries.
          response
            (wordmap_handler
               \<lparr>number_format = fmt,
                JSON_parse = [lit ''{"words":[]}'' \<mapsto> Obj [(lit ''words'', Arr [])]],
                chat_completions_create =
                  (\<lambda>prompt. Inr (Obj [(lit ''choices'',
                     Arr [Obj [(lit ''message'',
                       Obj [(lit ''content'', Str (lit ''Sure: {"words":[]} ok''))])]])])),
                speakSsmlAsync = speech\<rparr>
               (Obj [(lit ''sentence'', Str (lit ''ek''))]))
          = Responded (Json 200 (Obj [(lit ''words'', Arr entries)])))
     \<and> parse_completion [lit ''{"words":[]}'' \<mapsto> Obj [(lit ''words'', Arr [])]]
         (lit ''{"words":[]}'')
       = Inr (Obj [(lit ''words'', Arr [])])
     \<and> response
         (wordmap_handler
            \<lparr>number_format = fmt,
             JSON_parse =
               [lit ''{"words":[{"he":{"toString":"x"}}]}'' \<mapsto>
                  Obj [(lit ''words'',
                    Arr [Obj [(lit ''he'', Obj [(lit ''toString'', Str (lit ''x''))])]])]],
             chat_completions_create =
               (\<lambda>prompt. Inr (Obj [(lit ''choices'',
                  Arr [Obj [(lit ''message'',
                    Obj [(lit ''content'',
                      Str (lit ''{"words":[{"he":{"toString":"x"}}]}''))])]])])),
             speakSsmlAsync = speech\<rparr>
            (Obj [(lit ''sentence'', Str (lit ''ek''))]))
       = Responded (Failure 500 (lit ''Wordmap error'') TypeError)\<close>
proof (intro allI)
  fix fmt :: "rat \<Rightarrow> jsstr" and speech :: "jsstr \<Rightarrow> speech_outcome"
  let ?json = \<open>lit ''{"words":[]}''\<close>
  let ?good = \<open>lit ''Sure: {"words":[]} ok''\<close>
  let ?bad = "lit ''} no json {''"
  let ?parsed = "Obj [(lit ''words'', Arr [])]"
  let ?parse = "[?json \<mapsto> ?parsed]"
  let ?kg = "Obj [(lit ''choices'',
                Arr [Obj [(lit ''message'', Obj [(lit ''content'', Str ?good)])]])]"
  let ?kb = "Obj [(lit ''choices'',
                Arr [Obj [(lit ''message'', Obj [(lit ''content'', Str ?bad)])]])]"
  let ?Eg = "\<lparr>number_format = fmt, JSON_parse = ?parse,
           chat_completions_create = (\<lambda>prompt. Inr ?kg), speakSsmlAsync = speech\<rparr>"
  let ?Eb = "\<lparr>number_format = fmt, JSON_parse = ?parse,
           chat_completions_create = (\<lambda>prompt. Inr ?kb), speakSsmlAsync = speech\<rparr>"
  let ?body = "Obj [(lit ''sentence'', Str (lit ''ek''))]"
  let ?ws = "[lit ''ek''] :: jsstr list"
  have w: "split_words (lit ''ek'') = ?ws" by (simp add: words_eval)
  have tg: "trim ?good = ?good" by (simp add: trim_def is_ws_def lit_def)
  have tb: "trim ?bad = ?bad" by (simp add: trim_def is_ws_def lit_def)
  have ng: "?parse ?good = None" by (simp add: lit_def)
  have nb: "?parse ?bad = None" by (simp add: lit_def)
  have dg: "?good = lit ''Sure: '' @ [0x7B] @ tl (butlast ?json) @ [0x7D] @ lit '' ok''"
    by (simp add: lit_def)
  have jg: "[0x7B] @ tl (butlast ?json) @ [0x7D] = ?json" by (simp add: lit_def)
  have "parse_completion ?parse ?good =
      (case ?parse ([0x7B] @ tl (butlast ?json) @ [0x7D]) of
         Some v \<Rightarrow> Inr v | None \<Rightarrow> Inl SyntaxError)"
    using wordmap_parse_cascade
      [of ?parse ?good ?parsed "lit ''Sure: ''" "tl (butlast ?json)" "lit '' ok''"
          ?body ?Eg "lit ''ek''" ?ws ?kg ?good]
      ng dg
    by (simp add: lit_def)
  then have pg: "parse_completion ?parse ?good = Inr ?parsed"
    unfolding jg by simp
  have nopair: "\<nexists>pre mid post. ?bad = pre @ [0x7B] @ mid @ [0x7D] @ post \<and>
           0x7B \<notin> set pre \<and> 0x7D \<notin> set post"
  proof
    assume "\<exists>pre mid post. ?bad = pre @ [0x7B] @ mid @ [0x7D] @ post \<and>
           0x7B \<notin> set pre \<and> 0x7D \<notin> set post"
    then obtain pre mid post where "?bad = pre @ [0x7B] @ mid @ [0x7D] @ post" by blast
    from brace_pair_any [OF this] show False
      by (simp add: indexOf_def lastIndexOf_def lit_def)
  qed
  have pb: "parse_completion ?parse ?bad = Inl (Error (lit ''Failed to parse JSON from model''))"
    using wordmap_parse_cascade
      [of ?parse ?bad ?parsed "[]" "[]" "[]" ?body ?Eb "lit ''ek''" ?ws ?kb ?bad]
      nb nopair
    by blast
  have 1: "truthy (own (js_or ?body (Obj [])) (lit ''sentence''))"
    by (simp add: js_or_def lit_def)
  have 2: "ToString fmt (own (js_or ?body (Obj [])) (lit ''sentence'')) = Inr (lit ''ek'')"
    by (simp add: js_or_def)
  have 3: "message_content ?kg = Inr (Str ?good)" by (simp add: handler_eval)
  have 4: "message_content ?kb = Inr (Str ?bad)" by (simp add: handler_eval)
  have 5: "\<forall>i<length ?ws. \<not> conversion_throws (own (item_at (out_words ?parsed) i) (lit ''he''))"
    by (simp add: out_words_def item_at_def lit_def)
  have rb: "response (wordmap_handler ?Eb ?body) =
      Responded (Failure 500 (lit ''Wordmap error'') (Error (lit ''Failed to parse JSON from model'')))"
    using wordmap_parse_cascade
      [of ?parse ?bad ?parsed "[]" "[]" "[]" ?body ?Eb "lit ''ek''" ?ws ?kb ?bad]
      1 2 w 4 pb tb
    by simp
  have rg: "\<exists>entries. response (wordmap_handler ?Eg ?body) =
      Responded (Json 200 (Obj [(lit ''words'', Arr entries)]))"
    using wordmap_parse_cascade
      [of ?parse ?good ?parsed "[]" "[]" "[]" ?body ?Eg "lit ''ek''" ?ws ?kg ?good]
      1 2 w 3 pg tg 5
    by simp
  have pd: "parse_completion ?parse ?json = Inr ?parsed"
    using wordmap_parse_cascade
      [of ?parse ?json ?parsed "[]" "[]" "[]" ?body ?Eg "lit ''ek''" ?ws ?kg ?good]
    by simp
  let ?tj = \<open>lit ''{"words":[{"he":{"toString":"x"}}]}''\<close>
  let ?tp = "Obj [(lit ''words'',
                    Arr [Obj [(lit ''he'', Obj [(lit ''toString'', Str (lit ''x''))])]])]"
  let ?kt = "Obj [(lit ''choices'',
                Arr [Obj [(lit ''message'', Obj [(lit ''content'', Str ?tj)])]])]"
  let ?Et = "\<lparr>number_format = fmt, JSON_parse = [?tj \<mapsto> ?tp],
           chat_completions_create = (\<lambda>prompt. Inr ?kt), speakSsmlAsync = speech\<rparr>"
  have tt: "trim ?tj = ?tj" by (simp add: trim_def is_ws_def lit_def)
  have pt: "parse_completion [?tj \<mapsto> ?tp] ?tj = Inr ?tp"
    by (simp add: parse_completion_def)
  have 6: "message_content ?kt = Inr (Str ?tj)" by (simp add: handler_eval)
  have 7: "\<exists>i<length ?ws. conversion_throws (own (item_at (out_words ?tp) i) (lit ''he''))"
    by (simp add: out_words_def item_at_def has_own_def lit_def)
  have rt: "response (wordmap_handler ?Et ?body) =
      Responded (Failure 500 (lit ''Wordmap error'') TypeError)"
    using wordmap_parse_cascade
      [of "[?tj \<mapsto> ?tp]" ?tj ?tp "[]" "[]" "[]" ?body ?Et "lit ''ek''" ?ws ?kt ?tj]
      1 2 w 6 pt tt 7
    by simp
  from pg pb rb rg pd rt
  show \<open>parse_completion ?parse ?good = Inr ?parsed
     \<and> parse_completion ?parse ?bad = Inl (Error (lit ''Failed to parse JSON from model''))
     \<and> response (wordmap_handler ?Eb ?body)
       = Responded
           (Failure 500 (lit ''Wordmap error'') (Error (lit ''Failed to parse JSON from model'')))
     \<and> (\<exists>entries. response (wordmap_handler ?Eg ?body)
          = Responded (Json 200 (Obj [(lit ''words'', Arr entries)])))
     \<and> parse_completion ?parse ?json = Inr ?parsed
     \<and> response (wordmap_handler ?Et ?body)
       = Responded (Failure 500 (lit ''Wordmap error'') TypeError)\<close>
    by blast
qed

end
